theory Spec2Isabelle
  imports Complex_Main
begin

section \<open>JavaScript values, strings and exceptions\<close>

text \<open>
  The program is TypeScript running in a browser (the client modules
  \<open>audioAnalysis.ts\<close> and \<open>lumaGeneration.ts\<close>) and in Node (the relay,
  \<open>server/api.ts\<close>). Its string literals are mostly user-facing Japanese sentences;
  each literal that matters below is a constructor of \<open>message\<close>, the parameters
  standing for the interpolated parts of a template literal. A string at run time is
  either such a literal of the program or raw text: an ASCII literal of the program,
  or text that came from outside (a response body, an environment variable).
\<close>

datatype message =
    FileReadFailed
    \<comment> \<open>audioAnalysis: the file could not be read\<close>
  | JsonNotFound
    \<comment> \<open>audioAnalysis: no response in JSON form was found\<close>
  | MissingFields
    \<comment> \<open>audioAnalysis: the response lacks the required information\<close>
  | AnalysisFailed
    \<comment> \<open>audioAnalysis: the analysis of the music failed, please try again\<close>
  | InsufficientCredits
    \<comment> \<open>lumaGeneration: the credits of the Luma API are used up, check the quota of the key\<close>
  | StatusFetchFailed
    \<comment> \<open>pollGenerationStatus: could not get the state of the generation\<close>
  | StatusFetchFailedWith nat string
    \<comment> \<open>the same, followed by \<open>(status: statusText)\<close>\<close>
  | ImageRequestFailed
    \<comment> \<open>generateLumaImage: the image generation request failed\<close>
  | ImageRequestFailedWith nat string
    \<comment> \<open>the same, followed by \<open>(status: statusText)\<close>\<close>
  | VideoRequestFailed
    \<comment> \<open>generateLumaVideo: the video generation request failed\<close>
  | VideoRequestFailedWith nat string
    \<comment> \<open>the same, followed by \<open>(status: statusText)\<close>\<close>
  | GenerationTimedOut
    \<comment> \<open>pollGenerationStatus: the generation timed out\<close>
  | UnknownError
    \<comment> \<open>the message used for a thrown value that is not an \<open>Error\<close>\<close>
  | NoValidImages
    \<comment> \<open>createVideoFromImages: no valid image, every image generation failed\<close>
  | ErrorId nat
    \<comment> \<open>generateImagesInParallel: the template literal \<open>error-\<close> followed by the index\<close>
  | NullProperty string
    \<comment> \<open>the engine's message for reading a property of \<open>null\<close>\<close>

datatype jstring = Lit message | Raw string

text \<open>
  A thrown value: an \<open>Error\<close> object with its message, or any other value
  (\<open>error instanceof Error\<close> is false for it).
\<close>

datatype js_exn = JsError jstring | NonError

text \<open>
  A value as \<open>JSON.parse\<close> or \<open>response.json()\<close> delivers it, or a string of the
  program. \<open>undefined\<close> is not such a value: an expression that may be
  \<open>undefined\<close> has type \<open>jsval option\<close>, with \<open>None\<close> for \<open>undefined\<close>. An
  object is the list of its own properties; the first binding of a name counts.
\<close>

datatype jsval =
    JNull
  | JBool bool
  | JNum rat
  | JStr jstring
  | JArr "jsval list"
  | JObj "(string \<times> jsval) list"

text \<open>What \<open>if (v)\<close>, \<open>!v\<close> and \<open>v || w\<close> test.\<close>

fun truthy_val :: "jsval \<Rightarrow> bool" where
  "truthy_val JNull = False"
| "truthy_val (JBool b) = b"
| "truthy_val (JNum r) = (r \<noteq> 0)"
| "truthy_val (JStr (Lit m)) = True"
| "truthy_val (JStr (Raw s)) = (s \<noteq> [])"
| "truthy_val (JArr xs) = True"
| "truthy_val (JObj kvs) = True"

definition truthy :: "jsval option \<Rightarrow> bool" where
  "truthy v = (case v of None \<Rightarrow> False | Some x \<Rightarrow> truthy_val x)"

text \<open>\<open>a || b\<close>.\<close>

definition js_or :: "jsval option \<Rightarrow> jsval option \<Rightarrow> jsval option" where
  "js_or a b = (if truthy a then a else b)"

text \<open>
  \<open>v.name\<close> for one of the names the program reads (\<open>story\<close>, \<open>detail\<close>,
  \<open>state\<close>, ...): a \<open>TypeError\<close> on \<open>null\<close>, the property of an object,
  \<open>undefined\<close> on anything else.
\<close>

fun get_prop :: "jsval \<Rightarrow> string \<Rightarrow> js_exn + jsval option" where
  "get_prop JNull name = Inl (JsError (Lit (NullProperty name)))"
| "get_prop (JObj kvs) name = Inr (map_of kvs name)"
| "get_prop v name = Inr None"

text \<open>\<open>v?.name\<close>, for a \<open>v\<close> that may be \<open>undefined\<close>.\<close>

fun opt_prop :: "jsval option \<Rightarrow> string \<Rightarrow> jsval option" where
  "opt_prop (Some (JObj kvs)) name = map_of kvs name"
| "opt_prop v name = None"

text \<open>A string or \<open>undefined\<close> under \<open>s || d\<close>, with a string \<open>d\<close>.\<close>

definition str_or :: "string option \<Rightarrow> string \<Rightarrow> string" where
  "str_or s d = (case s of None \<Rightarrow> d | Some x \<Rightarrow> if x = [] then d else x)"

section \<open>Numbers\<close>





text \<open>
  The time window that \<open>AudioSegment\<close>, \<open>SegmentAnalysis\<close> and
  \<open>GeneratedMedia\<close> share, in seconds.
\<close>

record TimeWindow =
  startTime :: rat
  endTime :: rat

section \<open>Audio segmenter (audioAnalysis.ts, splitAudioIntoSegments)\<close>


record 'b AudioSegment = TimeWindow +
  blob :: 'b
















section \<open>Segment analyzer (audioAnalysis.ts, analyzeAudioSegment)\<close>

record SegmentAnalysis = TimeWindow +
  story :: jsval
  visual :: jsval
  emotion :: jsval
  imagePrompt :: jsval

text \<open>
  \<open>text.match(/\{[\s\S]*\}/)\<close>: the match starts at the first opening brace and,
  the star being greedy over every character, ends at the last closing brace after it;
  there is no match when no closing brace follows the first opening brace.
\<close>

definition match_braces :: "string \<Rightarrow> string option" where
  "match_braces text =
     (case dropWhile (\<lambda>c. c \<noteq> CHR ''{'') text of
        [] \<Rightarrow> None
      | b # rest \<Rightarrow>
          if CHR ''}'' \<in> set rest
          then Some (b # rev (dropWhile (\<lambda>c. c \<noteq> CHR ''}'') (rev rest)))
          else None)"

text \<open>
  The text-generation service and the JSON parser of the platform. The two requests
  of \<open>analyzeAudioSegment\<close> are given by their outcomes: the text of the response, or
  the exception that \<open>generateContent\<close>, \<open>result.response\<close> or \<open>text()\<close> throws.
  The wording of the two prompts (with the times formatted by \<open>formatTime\<close>) decides
  nothing in the function and is not modelled.
\<close>

record gemini_env =
  analysisCall :: "js_exn + string"
  promptCall :: "js_exn + string"
  JSON_parse :: "string \<Rightarrow> js_exn + jsval"

text \<open>\<open>!analysis.story || !analysis.visual || !analysis.emotion\<close>, read from left to right.\<close>

definition required_fields :: "jsval \<Rightarrow> js_exn + (jsval \<times> jsval \<times> jsval)" where
  "required_fields analysis =
     (case get_prop analysis ''story'' of
        Inl e \<Rightarrow> Inl e
      | Inr s \<Rightarrow>
          if \<not> truthy s then Inl (JsError (Lit MissingFields))
          else (case get_prop analysis ''visual'' of
            Inl e \<Rightarrow> Inl e
          | Inr v \<Rightarrow>
              if \<not> truthy v then Inl (JsError (Lit MissingFields))
              else (case get_prop analysis ''emotion'' of
                Inl e \<Rightarrow> Inl e
              | Inr m \<Rightarrow>
                  if \<not> truthy m then Inl (JsError (Lit MissingFields))
                  else Inr (the s, the v, the m))))"

text \<open>
  \<open>JSON.parse(promptText.match(/\{[\s\S]*\}/)?.[0] || '{}')\<close> and
  \<open>promptJson.imagePrompt || ''\<close>.
\<close>

definition prompt_of_response :: "gemini_env \<Rightarrow> string \<Rightarrow> js_exn + jsval" where
  "prompt_of_response env promptText =
     (case JSON_parse env (str_or (match_braces promptText) ''{}'') of
        Inl e \<Rightarrow> Inl e
      | Inr promptJson \<Rightarrow>
          (case get_prop promptJson ''imagePrompt'' of
             Inl e \<Rightarrow> Inl e
           | Inr p \<Rightarrow> Inr (the (js_or p (Some (JStr (Raw '''')))))))"

text \<open>The body of the \<open>try\<close> block, from the match on the text of the first response.\<close>

definition analyze_try ::
  "gemini_env \<Rightarrow> 'a TimeWindow_scheme \<Rightarrow> string \<Rightarrow> js_exn + SegmentAnalysis" where
  "analyze_try env segment text =
     (case match_braces text of
        None \<Rightarrow> Inl (JsError (Lit JsonNotFound))
      | Some jsonMatch \<Rightarrow>
          (case JSON_parse env jsonMatch of
             Inl e \<Rightarrow> Inl e
           | Inr analysis \<Rightarrow>
               (case required_fields analysis of
                  Inl e \<Rightarrow> Inl e
                | Inr (s, v, m) \<Rightarrow>
                    (case promptCall env of
                       Inl e \<Rightarrow> Inl e
                     | Inr promptText \<Rightarrow>
                         (case prompt_of_response env promptText of
                            Inl e \<Rightarrow> Inl e
                          | Inr p \<Rightarrow>
                              Inr \<lparr>startTime = startTime segment, endTime = endTime segment,
                                   story = s, visual = v, emotion = m, imagePrompt = p\<rparr>)))))"

text \<open>
  The first request is made before the \<open>try\<close>: what it throws reaches the caller as
  it is. Whatever the \<open>try\<close> block throws is logged, and the \<open>catch\<close> throws the one
  error with the message \<open>AnalysisFailed\<close> in its place.
\<close>

definition analyzeAudioSegment ::
  "gemini_env \<Rightarrow> 'a TimeWindow_scheme \<Rightarrow> js_exn + SegmentAnalysis" where
  "analyzeAudioSegment env segment =
     (case analysisCall env of
        Inl e \<Rightarrow> Inl e
      | Inr text \<Rightarrow>
          (case analyze_try env segment text of
             Inl error \<Rightarrow> Inl (JsError (Lit AnalysisFailed))
           | Inr result \<Rightarrow> Inr result))"

text \<open>
  A parser for the examples: it knows three texts and rejects every other one, as
  \<open>JSON.parse\<close> rejects text that is not JSON.
\<close>

definition demo_parse :: "string \<Rightarrow> js_exn + jsval" where
  \<open>demo_parse s =
     (if s = ''{}'' then Inr (JObj [])
      else if s = ''{"story":"s","visual":"v","emotion":"e"}''
        then Inr (JObj [(''story'', JStr (Raw ''s'')), (''visual'', JStr (Raw ''v'')),
                        (''emotion'', JStr (Raw ''e''))])
      else if s = ''{"story":"s","visual":"v"}''
        then Inr (JObj [(''story'', JStr (Raw ''s'')), (''visual'', JStr (Raw ''v''))])
      else Inl (JsError (Raw ''SyntaxError'')))\<close>

definition demo_segment :: "unit AudioSegment" where
  \<open>demo_segment = \<lparr>startTime = 0, endTime = 30, blob = ()\<rparr>\<close>

text \<open>The primary analysis succeeds; the prompt-synthesis call throws.\<close>

definition gemini_prompt_throws :: gemini_env where
  \<open>gemini_prompt_throws =
     \<lparr>analysisCall = Inr ''Here: {"story":"s","visual":"v","emotion":"e"} done'',
      promptCall = Inl (JsError (Raw ''fetch failed'')),
      JSON_parse = demo_parse\<rparr>\<close>

text \<open>The primary analysis succeeds; the second response has braces around text that is not JSON.\<close>

definition gemini_prompt_garbled :: gemini_env where
  \<open>gemini_prompt_garbled =
     \<lparr>analysisCall = Inr ''Here: {"story":"s","visual":"v","emotion":"e"} done'',
      promptCall = Inr ''{imagePrompt: a calm sea}'',
      JSON_parse = demo_parse\<rparr>\<close>

text \<open>The primary analysis succeeds; the second response has no braces at all.\<close>

definition gemini_prompt_plain :: gemini_env where
  \<open>gemini_prompt_plain =
     \<lparr>analysisCall = Inr ''Here: {"story":"s","visual":"v","emotion":"e"} done'',
      promptCall = Inr ''a calm sea at dusk'',
      JSON_parse = demo_parse\<rparr>\<close>

text \<open>The first response lacks the field \<open>emotion\<close>.\<close>

definition gemini_no_emotion :: gemini_env where
  \<open>gemini_no_emotion =
     \<lparr>analysisCall = Inr ''{"story":"s","visual":"v"}'',
      promptCall = Inr ''{}'',
      JSON_parse = demo_parse\<rparr>\<close>

section \<open>Media generator (lumaGeneration.ts)\<close>

datatype gen_state = Pending | Processing | Completed | Failed

text \<open>
  \<open>LumaResponse\<close>. The field \<open>id\<close> is named \<open>id'\<close> here. The optional fields and
  \<open>id\<close> hold what the upstream service sent, so they are values of any JSON type, or
  \<open>undefined\<close>.
\<close>

record LumaResponse =
  id' :: "jsval option"
  state :: gen_state
  imageUrl :: "jsval option"
  videoUrl :: "jsval option"
  failure_reason :: "jsval option"

text \<open>
  A response of \<open>fetch\<close>: \<open>response.ok\<close>, \<open>response.status\<close>,
  \<open>response.statusText\<close>, and what \<open>await response.json()\<close> gives: the parsed
  body, or the exception thrown for a body that is not JSON.
\<close>

record http_response =
  ok :: bool
  status :: nat
  statusText :: string
  json :: "js_exn + jsval"

text \<open>
  Header names are compared without regard to case by the platform on both sides, so
  they are a datatype here and not strings.
\<close>

datatype header_name = Authorization | Content_Type | OtherHeader string

type_synonym headers = "(header_name \<times> string) list"

text \<open>One entry of the \<open>keyframes\<close> object: \<open>{type, url, timing}\<close>.\<close>

record keyframe =
  kf_type :: string
  url :: jsval
  timing :: rat

text \<open>
  The JSON body of a creation request: \<open>{prompt, aspect_ratio, model}\<close> for an image,
  \<open>{prompt, model, keyframes}\<close> with an optional \<open>audio: {url}\<close> for a video. The key
  \<open>frame\<close>\<open>n\<close> of the \<open>keyframes\<close> object is the number \<open>n\<close>.
\<close>

datatype body =
    ImageBody jsval string string
  | VideoBody jsval string "(nat \<times> keyframe) list" "string option"

text \<open>
  The two requests of the client: \<open>POST /api/luma\<close> with a body, and
  \<open>GET /api/luma/${id}\<close>.
\<close>

datatype request = PostCreate headers body | GetStatus headers "jsval option"

datatype warning =
    SegmentsFailed nat
    \<comment> \<open>generateImagesInParallel: the image generation failed for that many segments\<close>
  | DegradedQuality nat nat
    \<comment> \<open>createVideoFromImages: the share of failed images, built from the number of
        successful images and the number of all; the quality of the video may suffer\<close>

text \<open>
  What a run does besides returning: its requests, its waits (in milliseconds) and
  its \<open>console.warn\<close> calls, in order. The diagnostic \<open>console.log\<close> and
  \<open>console.error\<close> calls are not recorded.
\<close>

datatype event = Fetch request | Sleep nat | Warn warning

text \<open>
  The surroundings of one job: the key that the build put into
  \<open>import.meta.env.VITE_LUMA_API_KEY\<close> (or \<open>undefined\<close>), the outcome of the
  creation request for a body, and the outcome of the status query number \<open>n\<close>
  (from 0) for an id. An outcome is a response, or the exception that \<open>fetch\<close>
  throws.
\<close>

record net_env =
  viteKey :: "string option"
  createResponse :: "body \<Rightarrow> js_exn + http_response"
  statusResponse :: "jsval option \<Rightarrow> nat \<Rightarrow> js_exn + http_response"

text \<open>
  The \<open>headers\<close> of every \<open>fetch\<close> of the client:
  \<open>'Authorization': `Bearer ${import.meta.env.VITE_LUMA_API_KEY}`\<close> and
  \<open>'Content-Type': 'application/json'\<close>.
\<close>

definition auth_headers :: "net_env \<Rightarrow> headers" where
  "auth_headers env =
     [(Authorization, ''Bearer '' @ (case viteKey env of None \<Rightarrow> ''undefined'' | Some k \<Rightarrow> k)),
      (Content_Type, ''application/json'')]"

text \<open>
  The \<open>if (!response.ok)\<close> block, which \<open>pollGenerationStatus\<close>,
  \<open>generateLumaImage\<close> and \<open>generateLumaVideo\<close> each carry with their own two
  literals: \<open>generic\<close> is the initial \<open>errorMessage\<close>, \<open>with_status\<close> the template
  literal of the inner \<open>catch\<close>. The inner \<open>try\<close> covers \<open>response.json()\<close> and the
  reading of \<open>errorData.detail\<close>.
\<close>

definition error_message :: "message \<Rightarrow> (nat \<Rightarrow> string \<Rightarrow> message) \<Rightarrow> http_response \<Rightarrow> jsval" where
  "error_message generic with_status response =
     (case json response of
        Inl jsonError \<Rightarrow> JStr (Lit (with_status (status response) (statusText response)))
      | Inr errorData \<Rightarrow>
          (case get_prop errorData ''detail'' of
             Inl jsonError \<Rightarrow> JStr (Lit (with_status (status response) (statusText response)))
           | Inr detail \<Rightarrow>
               if detail = Some (JStr (Raw ''Insufficient credits''))
               then JStr (Lit InsufficientCredits)
               else the (js_or detail
                          (js_or (opt_prop (Some errorData) ''message'')
                             (Some (JStr (Lit generic)))))))"

definition maxAttempts :: nat where
  "maxAttempts = 30"

definition pollingInterval :: nat where
  "pollingInterval = 2000"

text \<open>
  The loop of \<open>pollGenerationStatus\<close>, from the value of \<open>attempts\<close>. The flag
  \<open>completed\<close> is set only on the line before a \<open>return\<close>, so the loop condition is
  \<open>attempts < maxAttempts\<close>. The result comes with the events of the loop.
\<close>

function poll_loop :: "net_env \<Rightarrow> jsval option \<Rightarrow> nat \<Rightarrow> (js_exn + LumaResponse) \<times> event list" where
  "poll_loop env jobId attempts =
     (if attempts < maxAttempts then
        (case statusResponse env jobId attempts of
           Inl e \<Rightarrow> (Inl e, [Fetch (GetStatus (auth_headers env) jobId)])
         | Inr response \<Rightarrow>
             if \<not> ok response then
               (Inr \<lparr>id' = jobId, state = Failed, imageUrl = None, videoUrl = None,
                     failure_reason =
                       Some (error_message StatusFetchFailed StatusFetchFailedWith response)\<rparr>,
                [Fetch (GetStatus (auth_headers env) jobId)])
             else
               (case json response of
                  Inl e \<Rightarrow> (Inl e, [Fetch (GetStatus (auth_headers env) jobId)])
                | Inr st \<Rightarrow>
                    (case get_prop st ''state'' of
                       Inl e \<Rightarrow> (Inl e, [Fetch (GetStatus (auth_headers env) jobId)])
                     | Inr s \<Rightarrow>
                         if s = Some (JStr (Raw ''completed'')) then
                           (Inr \<lparr>id' = opt_prop (Some st) ''id'', state = Completed,
                                 imageUrl =
                                   js_or (opt_prop (opt_prop (Some st) ''assets'') ''video_0_thumb'')
                                     (opt_prop (opt_prop (Some st) ''assets'') ''image''),
                                 videoUrl = opt_prop (opt_prop (Some st) ''assets'') ''video'',
                                 failure_reason = None\<rparr>,
                            [Fetch (GetStatus (auth_headers env) jobId)])
                         else if s = Some (JStr (Raw ''failed'')) then
                           (Inr \<lparr>id' = opt_prop (Some st) ''id'', state = Failed,
                                 imageUrl = None, videoUrl = None,
                                 failure_reason = opt_prop (Some st) ''failure_reason''\<rparr>,
                            [Fetch (GetStatus (auth_headers env) jobId)])
                         else
                           (fst (poll_loop env jobId (attempts + 1)),
                            Fetch (GetStatus (auth_headers env) jobId) # Sleep pollingInterval
                              # snd (poll_loop env jobId (attempts + 1))))))
      else (Inl (JsError (Lit GenerationTimedOut)), []))"
  by pat_completeness auto
termination
  by (relation "measure (\<lambda>(env, jobId, attempts). maxAttempts - attempts)") auto

definition pollGenerationStatus :: "net_env \<Rightarrow> jsval option \<Rightarrow> (js_exn + LumaResponse) \<times> event list" where
  "pollGenerationStatus env jobId = poll_loop env jobId 0"

text \<open>
  The \<open>try\<close> block that \<open>generateLumaImage\<close> and \<open>generateLumaVideo\<close> share from the
  \<open>fetch\<close> on: the creation request, the \<open>if (!response.ok)\<close> block, and the polling
  of \<open>generation.id\<close>.
\<close>

definition submit_and_poll ::
  "net_env \<Rightarrow> body \<Rightarrow> message \<Rightarrow> (nat \<Rightarrow> string \<Rightarrow> message) \<Rightarrow> (js_exn + LumaResponse) \<times> event list" where
  "submit_and_poll env requestBody generic with_status =
     (case createResponse env requestBody of
        Inl e \<Rightarrow> (Inl e, [Fetch (PostCreate (auth_headers env) requestBody)])
      | Inr response \<Rightarrow>
          if \<not> ok response then
            (Inr \<lparr>id' = Some (JStr (Raw ''error'')), state = Failed, imageUrl = None,
                  videoUrl = None,
                  failure_reason = Some (error_message generic with_status response)\<rparr>,
             [Fetch (PostCreate (auth_headers env) requestBody)])
          else
            (case json response of
               Inl e \<Rightarrow> (Inl e, [Fetch (PostCreate (auth_headers env) requestBody)])
             | Inr generation \<Rightarrow>
                 (case get_prop generation ''id'' of
                    Inl e \<Rightarrow> (Inl e, [Fetch (PostCreate (auth_headers env) requestBody)])
                  | Inr generationId \<Rightarrow>
                      (fst (pollGenerationStatus env generationId),
                       Fetch (PostCreate (auth_headers env) requestBody)
                         # snd (pollGenerationStatus env generationId)))))"

text \<open>
  The \<open>catch\<close> of both functions: whatever the \<open>try\<close> block throws becomes a returned
  response, with \<open>error.message\<close> as the reason when the thrown value is an \<open>Error\<close>.
\<close>

definition exn_reason :: "js_exn \<Rightarrow> jsval" where
  "exn_reason error = (case error of JsError m \<Rightarrow> JStr m | NonError \<Rightarrow> JStr (Lit UnknownError))"

definition catch_failed :: "(js_exn + LumaResponse) \<times> event list \<Rightarrow> (js_exn + LumaResponse) \<times> event list" where
  "catch_failed run =
     (case fst run of
        Inl error \<Rightarrow>
          (Inr \<lparr>id' = Some (JStr (Raw ''unknown'')), state = Failed, imageUrl = None,
                videoUrl = None, failure_reason = Some (exn_reason error)\<rparr>,
           snd run)
      | Inr response \<Rightarrow> run)"

text \<open>
  The options of the two functions; both have \<open>prompt\<close> and \<open>model\<close>. A prompt is
  whatever the analysis put into \<open>imagePrompt\<close>.
\<close>

record GenerationOptions =
  prompt :: jsval
  model :: "string option"

record ImageGenerationOptions = GenerationOptions +
  aspect_ratio :: "string option"

record VideoGenerationOptions = GenerationOptions +
  keyframes :: "(nat \<times> keyframe) list"
  audioUrl :: "string option"

text \<open>
  The body of the request of \<open>generateLumaImage\<close>: \<open>prompt\<close>,
  \<open>options.aspect_ratio || '16:9'\<close> and \<open>options.model || 'ray-2'\<close>.
\<close>

definition image_body :: "ImageGenerationOptions \<Rightarrow> body" where
  "image_body options =
     ImageBody (prompt options) (str_or (aspect_ratio options) ''16:9'')
       (str_or (model options) ''ray-2'')"

definition generateLumaImage :: "net_env \<Rightarrow> ImageGenerationOptions \<Rightarrow> (js_exn + LumaResponse) \<times> event list" where
  "generateLumaImage env options =
     catch_failed
       (submit_and_poll env (image_body options) ImageRequestFailed ImageRequestFailedWith)"

text \<open>\<open>if (options.audioUrl) requestBody.audio = { url: options.audioUrl }\<close>.\<close>

definition audio_of :: "string option \<Rightarrow> string option" where
  "audio_of u = (case u of None \<Rightarrow> None | Some x \<Rightarrow> if x = [] then None else Some x)"

text \<open>
  \<open>requestBody\<close> of \<open>generateLumaVideo\<close>: \<open>prompt\<close>,
  \<open>options.model || 'ray-2'\<close>, \<open>keyframes\<close> and the optional \<open>audio\<close>.
\<close>

definition video_body :: "VideoGenerationOptions \<Rightarrow> body" where
  "video_body options =
     VideoBody (prompt options) (str_or (model options) ''ray-2'') (keyframes options)
       (audio_of (audioUrl options))"

definition generateLumaVideo :: "net_env \<Rightarrow> VideoGenerationOptions \<Rightarrow> (js_exn + LumaResponse) \<times> event list" where
  "generateLumaVideo env options =
     catch_failed
       (submit_and_poll env (video_body options) VideoRequestFailed VideoRequestFailedWith)"

subsection \<open>Batches of image jobs (generateImagesInParallel)\<close>

record GeneratedMedia = TimeWindow +
  segmentIndex :: nat
  imageResponse :: LumaResponse

text \<open>
  The jobs of one batch run concurrently, so their events have no order among each
  other: a batch is recorded as one \<open>Group\<close>, the list of its jobs (in the order of
  submission), each with its segment index and its own events. \<open>await Promise.all\<close>
  ends when every job of the group has ended; whatever the order of completion, it
  delivers the results in the order of submission. Only then the progress callback
  runs and the next round of the loop starts, so the trace is a sequence.
\<close>

datatype par_event =
    Group "(nat \<times> event list) list"
  | OnProgress nat nat
  | ConsoleWarn warning

definition batchSize :: nat where
  "batchSize = 3"

text \<open>
  One element of \<open>batchPromises\<close>: the job of segment \<open>k\<close>, with the \<open>then\<close> and the
  \<open>catch\<close> handler. The third component is the entry pushed to \<open>errors\<close>, if any.
  Each job has its own surroundings \<open>envs k\<close>.
\<close>

definition run_job ::
  "(nat \<Rightarrow> net_env) \<Rightarrow> nat \<Rightarrow> SegmentAnalysis \<Rightarrow> GeneratedMedia \<times> event list \<times> (nat \<times> js_exn) list" where
  "run_job envs k analysis =
     (case fst (generateLumaImage (envs k)
                  \<lparr>prompt = imagePrompt analysis, model = Some ''ray-2'',
                   aspect_ratio = Some ''16:9''\<rparr>) of
        Inr response \<Rightarrow>
          (\<lparr>startTime = startTime analysis, endTime = endTime analysis,
            segmentIndex = k, imageResponse = response\<rparr>,
           snd (generateLumaImage (envs k)
                  \<lparr>prompt = imagePrompt analysis, model = Some ''ray-2'',
                   aspect_ratio = Some ''16:9''\<rparr>),
           [])
      | Inl error \<Rightarrow>
          (\<lparr>startTime = startTime analysis, endTime = endTime analysis,
            segmentIndex = k,
            imageResponse =
              \<lparr>id' = Some (JStr (Lit (ErrorId k))), state = Failed, imageUrl = None,
               videoUrl = None,
               failure_reason = Some (exn_reason error)\<rparr>\<rparr>,
           snd (generateLumaImage (envs k)
                  \<lparr>prompt = imagePrompt analysis, model = Some ''ray-2'',
                   aspect_ratio = Some ''16:9''\<rparr>),
           [(k, error)]))"

text \<open>
  \<open>analyses.slice(i, i + batchSize).map((analysis, index) => ...)\<close>: the jobs of the
  batch that starts at \<open>i\<close>.
\<close>

definition run_batch ::
  "(nat \<Rightarrow> net_env) \<Rightarrow> SegmentAnalysis list \<Rightarrow> nat
     \<Rightarrow> (GeneratedMedia \<times> event list \<times> (nat \<times> js_exn) list) list" where
  "run_batch envs analyses i =
     map (\<lambda>(index, analysis). run_job envs (i + index) analysis)
       (zip [0 ..< length (take batchSize (drop i analyses))] (take batchSize (drop i analyses)))"

text \<open>
  The \<open>for\<close> loop, from the value of \<open>i\<close>, with \<open>results\<close>, \<open>errors\<close> and the
  trace so far. \<open>onProgress\<close> tells whether the caller passed the callback.
\<close>

function batch_loop ::
  "(nat \<Rightarrow> net_env) \<Rightarrow> SegmentAnalysis list \<Rightarrow> bool \<Rightarrow> nat \<Rightarrow> GeneratedMedia list
     \<Rightarrow> (nat \<times> js_exn) list \<Rightarrow> par_event list
     \<Rightarrow> GeneratedMedia list \<times> (nat \<times> js_exn) list \<times> par_event list" where
  "batch_loop envs analyses onProgress i results errors trace =
     (if i < length analyses then
        batch_loop envs analyses onProgress (i + batchSize)
          (results @ map fst (run_batch envs analyses i))
          (errors @ concat (map (\<lambda>r. snd (snd r)) (run_batch envs analyses i)))
          (trace
             @ [Group (map (\<lambda>r. (segmentIndex (fst r), fst (snd r))) (run_batch envs analyses i))]
             @ (if onProgress
                then [OnProgress (min (i + batchSize) (length analyses)) (length analyses)]
                else []))
      else (results, errors, trace))"
  by pat_completeness auto
termination
  by (relation "measure (\<lambda>(envs, analyses, onProgress, i, results, errors, trace). length analyses - i)")
    (auto simp: batchSize_def)

text \<open>
  After the loop: the warning when \<open>errors\<close> is not empty, and
  \<open>results.sort((a, b) => a.segmentIndex - b.segmentIndex)\<close>, a stable sort.
\<close>

definition generateImagesInParallel ::
  "(nat \<Rightarrow> net_env) \<Rightarrow> SegmentAnalysis list \<Rightarrow> bool \<Rightarrow> GeneratedMedia list \<times> par_event list" where
  "generateImagesInParallel envs analyses onProgress =
     (case batch_loop envs analyses onProgress 0 [] [] [] of
        (results, errors, trace) \<Rightarrow>
          (sort_key segmentIndex results,
           trace @ (if length errors > 0 then [ConsoleWarn (SegmentsFailed (length errors))] else [])))"

subsection \<open>Video assembly (createVideoFromImages)\<close>

text \<open>
  \<open>img.imageResponse.state === 'completed' && img.imageResponse.imageUrl\<close>.
\<close>

definition successful :: "GeneratedMedia \<Rightarrow> bool" where
  "successful img =
     (state (imageResponse img) = Completed \<and> truthy (imageUrl (imageResponse img)))"

definition defaultPrompt :: string where
  "defaultPrompt =
     ''Create a smooth video transition between these images, maintaining the visual style and atmosphere''"

text \<open>
  The \<open>forEach\<close> that fills \<open>keyframes\<close>: the entry \<open>frame\<close>\<open>index\<close> for each
  successful image that has an \<open>imageUrl\<close>, \<open>index\<close> being its position among the
  successful images.
\<close>

definition keyframes_of :: "GeneratedMedia list \<Rightarrow> (nat \<times> keyframe) list" where
  "keyframes_of successfulImages =
     map (\<lambda>(index, img).
            (index, \<lparr>kf_type = ''image'', url = the (imageUrl (imageResponse img)),
                     timing = startTime img\<rparr>))
       (filter (\<lambda>(index, img). truthy (imageUrl (imageResponse img)))
          (zip [0 ..< length successfulImages] successfulImages))"

text \<open>
  The function throws when no image is left, before any request; otherwise it warns
  when \<open>successfulImages.length < generatedImages.length * 0.5\<close> and hands the
  keyframes to \<open>generateLumaVideo\<close>. Half the length of an array is a
  floating-point number, so the product is exact.
\<close>

definition createVideoFromImages ::
  "net_env \<Rightarrow> GeneratedMedia list \<Rightarrow> string option \<Rightarrow> string option
     \<Rightarrow> (js_exn + LumaResponse) \<times> event list" where
  "createVideoFromImages env generatedImages audio overallPrompt =
     (if length (filter successful generatedImages) = 0
      then (Inl (JsError (Lit NoValidImages)), [])
      else
        (fst (generateLumaVideo env
               \<lparr>prompt = JStr (Raw (str_or overallPrompt defaultPrompt)), model = Some ''ray-2'',
                keyframes = keyframes_of (filter successful generatedImages),
                audioUrl = audio\<rparr>),
         (if (of_nat (length (filter successful generatedImages)) :: rat)
               < of_nat (length generatedImages) * (1 / 2)
          then [Warn (DegradedQuality (length (filter successful generatedImages))
                        (length generatedImages))]
          else [])
         @ snd (generateLumaVideo env
               \<lparr>prompt = JStr (Raw (str_or overallPrompt defaultPrompt)), model = Some ''ray-2'',
                keyframes = keyframes_of (filter successful generatedImages),
                audioUrl = audio\<rparr>)))"

section \<open>Relay (server/api.ts) and the development proxy (vite.config.ts)\<close>

text \<open>
  \<open>process.env.LUMA_API_KEY\<close> of the relay, and \<open>process.env.VITE_LUMA_API_KEY\<close>
  of the development server.
\<close>

record server_env =
  LUMA_API_KEY :: "string option"
  VITE_LUMA_API_KEY :: "string option"

text \<open>\<open>proxyReq.setHeader(name, value)\<close>: the header replaces one of the same name.\<close>

definition setHeader :: "header_name \<Rightarrow> string \<Rightarrow> headers \<Rightarrow> headers" where
  "setHeader name v hs = (name, v) # filter (\<lambda>h. fst h \<noteq> name) hs"

text \<open>
  \<open>onProxyReq\<close> of both routes of the relay, on the headers of the outgoing request,
  which the proxy has filled with the headers of the incoming request. The key is
  attached only \<open>if (process.env.LUMA_API_KEY)\<close>. The forwarding of the body by the
  first route is not modelled.
\<close>

definition onProxyReq :: "server_env \<Rightarrow> headers \<Rightarrow> headers" where
  "onProxyReq penv proxyReq =
     setHeader Content_Type ''application/json''
       (case LUMA_API_KEY penv of
          None \<Rightarrow> proxyReq
        | Some k \<Rightarrow> if k = [] then proxyReq else setHeader Authorization (''Bearer '' @ k) proxyReq)"

text \<open>
  The \<open>headers\<close> option of the development proxy:
  \<open>'Authorization': `Bearer ${process.env.VITE_LUMA_API_KEY || ''}`\<close>.
\<close>

definition dev_proxy_headers :: "server_env \<Rightarrow> headers \<Rightarrow> headers" where
  "dev_proxy_headers penv proxyReq =
     setHeader Authorization (''Bearer '' @ str_or (VITE_LUMA_API_KEY penv) []) proxyReq"

text \<open>The headers of a request of the client.\<close>

fun request_headers :: "request \<Rightarrow> headers" where
  "request_headers (PostCreate hs b) = hs"
| "request_headers (GetStatus hs i) = hs"

section \<open>Notions used in the statements\<close>

text \<open>The status query of \<open>pollGenerationStatus\<close> for an id.\<close>

definition status_query :: "net_env \<Rightarrow> jsval option \<Rightarrow> event" where
  "status_query env jobId = Fetch (GetStatus (auth_headers env) jobId)"

fun is_query :: "event \<Rightarrow> bool" where
  "is_query (Fetch (GetStatus hs i)) = True"
| "is_query e = False"

fun is_create :: "event \<Rightarrow> bool" where
  "is_create (Fetch (PostCreate hs b)) = True"
| "is_create e = False"

text \<open>
  The status query number \<open>n\<close> is answered with success, by a body \<open>st\<close> whose
  \<open>state\<close> is the string \<open>s\<close>.
\<close>

definition reports :: "net_env \<Rightarrow> jsval option \<Rightarrow> nat \<Rightarrow> string \<Rightarrow> jsval \<Rightarrow> bool" where
  "reports env jobId n s st =
     (case statusResponse env jobId n of
        Inl e \<Rightarrow> False
      | Inr response \<Rightarrow>
          ok response \<and> json response = Inr st
          \<and> get_prop st ''state'' = Inr (Some (JStr (Raw s))))"

text \<open>
  The status query number \<open>n\<close> is answered with success, by a body whose \<open>state\<close>
  is neither \<open>completed\<close> nor \<open>failed\<close>: the job is pending or processing.
\<close>

definition in_progress :: "net_env \<Rightarrow> jsval option \<Rightarrow> nat \<Rightarrow> bool" where
  "in_progress env jobId n =
     (case statusResponse env jobId n of
        Inl e \<Rightarrow> False
      | Inr response \<Rightarrow>
          ok response
          \<and> (case json response of
                Inl e \<Rightarrow> False
              | Inr st \<Rightarrow>
                  (case get_prop st ''state'' of
                     Inl e \<Rightarrow> False
                   | Inr s \<Rightarrow>
                       s \<noteq> Some (JStr (Raw ''completed''))
                       \<and> s \<noteq> Some (JStr (Raw ''failed'')))))"

section \<open>Concrete surroundings for the examples\<close>

definition http_ok :: "jsval \<Rightarrow> js_exn + http_response" where
  "http_ok b = Inr \<lparr>ok = True, status = 200, statusText = ''OK'', json = Inr b\<rparr>"

definition demo_id :: "jsval option" where
  "demo_id = Some (JStr (Raw ''job-1''))"

text \<open>The creation succeeds; the job stays in the state \<open>processing\<close> for ever.\<close>

definition net_processing :: net_env where
  "net_processing =
     \<lparr>viteKey = Some ''luma-key-1'',
      createResponse = (\<lambda>b. http_ok (JObj [(''id'', JStr (Raw ''job-1''))])),
      statusResponse = (\<lambda>i n. http_ok (JObj [(''id'', JStr (Raw ''job-1'')),
                                               (''state'', JStr (Raw ''processing''))]))\<rparr>"

text \<open>The creation succeeds; the third status query finds the job completed, with an image.\<close>

definition completed_status :: jsval where
  "completed_status =
     JObj [(''id'', JStr (Raw ''job-1'')), (''state'', JStr (Raw ''completed'')),
           (''assets'', JObj [(''image'', JStr (Raw ''https://cdn/1.png''))])]"

definition net_completes :: net_env where
  "net_completes =
     \<lparr>viteKey = Some ''luma-key-1'',
      createResponse = (\<lambda>b. http_ok (JObj [(''id'', JStr (Raw ''job-1''))])),
      statusResponse = (\<lambda>i n.
         if n < 2 then http_ok (JObj [(''id'', JStr (Raw ''job-1'')),
                                      (''state'', JStr (Raw ''processing''))])
         else http_ok completed_status)\<rparr>"

text \<open>The creation succeeds; the first status query finds the job failed, with no reason given.\<close>

definition net_fails_silently :: net_env where
  "net_fails_silently =
     \<lparr>viteKey = Some ''luma-key-1'',
      createResponse = (\<lambda>b. http_ok (JObj [(''id'', JStr (Raw ''job-1''))])),
      statusResponse = (\<lambda>i n. http_ok (JObj [(''id'', JStr (Raw ''job-1'')),
                                               (''state'', JStr (Raw ''failed''))]))\<rparr>"

text \<open>The creation request is answered with status 500 and the body \<open>{}\<close>.\<close>

definition net_rejects :: net_env where
  "net_rejects =
     \<lparr>viteKey = Some ''luma-key-1'',
      createResponse = (\<lambda>b. Inr \<lparr>ok = False, status = 500,
                                   statusText = ''Internal Server Error'', json = Inr (JObj [])\<rparr>),
      statusResponse = (\<lambda>i n. Inl (JsError (Raw ''unreachable'')))\<rparr>"

text \<open>\<open>fetch\<close> throws on the creation request.\<close>

definition net_down :: net_env where
  "net_down =
     \<lparr>viteKey = Some ''luma-key-1'',
      createResponse = (\<lambda>b. Inl (JsError (Raw ''Failed to fetch''))),
      statusResponse = (\<lambda>i n. Inl (JsError (Raw ''Failed to fetch'')))\<rparr>"

text \<open>
  The creation succeeds; two status queries find the job processing; on the third,
  \<open>fetch\<close> throws.
\<close>

definition net_loses_contact :: net_env where
  "net_loses_contact =
     \<lparr>viteKey = Some ''luma-key-1'',
      createResponse = (\<lambda>b. http_ok (JObj [(''id'', JStr (Raw ''job-1''))])),
      statusResponse = (\<lambda>i n.
         if n < 2 then http_ok (JObj [(''id'', JStr (Raw ''job-1'')),
                                      (''state'', JStr (Raw ''processing''))])
         else Inl (JsError (Raw ''Failed to fetch'')))\<rparr>"

definition demo_options :: ImageGenerationOptions where
  "demo_options = \<lparr>prompt = JStr (Raw ''a calm sea at dusk''), model = None, aspect_ratio = None\<rparr>"

text \<open>An image of segment \<open>k\<close> for the examples, generated or failed.\<close>

definition demo_media :: "nat \<Rightarrow> bool \<Rightarrow> GeneratedMedia" where
  "demo_media k good =
     \<lparr>startTime = of_nat k * 30, endTime = of_nat k * 30 + 30, segmentIndex = k,
      imageResponse =
        (if good
         then \<lparr>id' = Some (JStr (Raw ''img'')), state = Completed,
               imageUrl = Some (JStr (Raw ''https://cdn/img.png'')), videoUrl = None,
               failure_reason = None\<rparr>
         else \<lparr>id' = Some (JStr (Raw ''error'')), state = Failed, imageUrl = None,
               videoUrl = None, failure_reason = Some (JStr (Lit ImageRequestFailed))\<rparr>)\<rparr>"

text \<open>Ten images, of which the first four were generated and the other six failed.\<close>

definition four_of_ten :: "GeneratedMedia list" where
  "four_of_ten =
     [demo_media 0 True, demo_media 1 True, demo_media 2 True, demo_media 3 True,
      demo_media 4 False, demo_media 5 False, demo_media 6 False, demo_media 7 False,
      demo_media 8 False, demo_media 9 False]"

text \<open>
  What the promise of segment \<open>k\<close> resolves to in \<open>generateImagesInParallel\<close>, and
  the events of that job.
\<close>

definition job_outcome :: "(nat \<Rightarrow> net_env) \<Rightarrow> SegmentAnalysis list \<Rightarrow> nat \<Rightarrow> GeneratedMedia" where
  "job_outcome envs analyses k = fst (run_job envs k (analyses ! k))"

definition job_events :: "(nat \<Rightarrow> net_env) \<Rightarrow> SegmentAnalysis list \<Rightarrow> nat \<Rightarrow> nat \<times> event list" where
  "job_events envs analyses k = (k, fst (snd (run_job envs k (analyses ! k))))"

text \<open>
  The call of \<open>generateLumaImage\<close> that \<open>generateImagesInParallel\<close> makes for
  segment \<open>k\<close>: the options \<open>{prompt: analysis.imagePrompt, aspect_ratio: '16:9',
  model: 'ray-2'}\<close>, in the surroundings of that job.
\<close>

definition image_options :: "SegmentAnalysis \<Rightarrow> ImageGenerationOptions" where
  "image_options analysis =
     \<lparr>prompt = imagePrompt analysis, model = Some ''ray-2'', aspect_ratio = Some ''16:9''\<rparr>"

definition job_call ::
  "(nat \<Rightarrow> net_env) \<Rightarrow> SegmentAnalysis list \<Rightarrow> nat \<Rightarrow> (js_exn + LumaResponse) \<times> event list" where
  "job_call envs analyses k = generateLumaImage (envs k) (image_options (analyses ! k))"

text \<open>The creation request that carries the prompt of segment \<open>k\<close>.\<close>

definition submission :: "(nat \<Rightarrow> net_env) \<Rightarrow> SegmentAnalysis list \<Rightarrow> nat \<Rightarrow> event" where
  "submission envs analyses k =
     Fetch (PostCreate (auth_headers (envs k))
              (ImageBody (imagePrompt (analyses ! k)) ''16:9'' ''ray-2''))"

text \<open>Seven analyses for the examples, and surroundings in which only the job of segment 4 fails.\<close>

definition demo_analysis :: "nat \<Rightarrow> SegmentAnalysis" where
  "demo_analysis k =
     \<lparr>startTime = of_nat k * 30, endTime = of_nat k * 30 + 30, story = JStr (Raw ''s''),
      visual = JStr (Raw ''v''), emotion = JStr (Raw ''e''),
      imagePrompt = JStr (Raw ''a calm sea at dusk'')\<rparr>"

definition seven_analyses :: "SegmentAnalysis list" where
  "seven_analyses =
     [demo_analysis 0, demo_analysis 1, demo_analysis 2, demo_analysis 3, demo_analysis 4,
      demo_analysis 5, demo_analysis 6]"

definition fourth_fails :: "nat \<Rightarrow> net_env" where
  "fourth_fails k = (if k = 4 then net_rejects else net_completes)"

text \<open>A relay whose \<open>LUMA_API_KEY\<close> is not set, and one that holds a key.\<close>

definition relay_without_key :: server_env where
  "relay_without_key = \<lparr>LUMA_API_KEY = None, VITE_LUMA_API_KEY = None\<rparr>"

definition relay_with_key :: server_env where
  "relay_with_key = \<lparr>LUMA_API_KEY = Some ''luma-server-key'', VITE_LUMA_API_KEY = None\<rparr>"

section \<open>Properties of floating-point rounding\<close>





section \<open>Properties of the audio segmenter\<close>
























section \<open>Properties of the segment analyzer\<close>

lemma match_braces_nonempty: "match_braces t = Some m \<Longrightarrow> m \<noteq> []"
  by (auto simp: match_braces_def split: list.splits if_splits)

lemma required_fields_missing:
  assumes "get_prop obj ''story'' = Inr None \<or> get_prop obj ''visual'' = Inr None
             \<or> get_prop obj ''emotion'' = Inr None"
  shows "isl (required_fields obj)"
  using assms by (cases obj) (auto simp: required_fields_def truthy_def split: sum.splits)

lemma analyze_try_failure:
  "analysisCall env = Inr text \<Longrightarrow> isl (analyze_try env segment text) \<Longrightarrow>
     analyzeAudioSegment env segment = Inl (JsError (Lit AnalysisFailed))"
  by (auto simp: analyzeAudioSegment_def split: sum.splits)

text \<open>
  Claim C4. When the text of the analysis response holds no JSON object, or the
  brace span is not parseable, or the parsed value lacks one of \<open>story\<close>,
  \<open>visual\<close>, \<open>emotion\<close>, \<open>analyzeAudioSegment\<close> fails: it throws the
  analysis-failed error and returns no result.
\<close>

theorem malformed_analysis_fails:
  assumes "analysisCall env = Inr text"
    and "match_braces text = None
         \<or> (\<exists>m. match_braces text = Some m \<and> isl (JSON_parse env m))
         \<or> (\<exists>m obj. match_braces text = Some m \<and> JSON_parse env m = Inr obj
               \<and> (get_prop obj ''story'' = Inr None \<or> get_prop obj ''visual'' = Inr None
                    \<or> get_prop obj ''emotion'' = Inr None))"
  shows "analyzeAudioSegment env segment = Inl (JsError (Lit AnalysisFailed))"
proof (rule analyze_try_failure [OF assms(1)])
  from assms(2) consider
      (nomatch) "match_braces text = None"
    | (noparse) m where "match_braces text = Some m" "isl (JSON_parse env m)"
    | (nofield) m obj where "match_braces text = Some m" "JSON_parse env m = Inr obj"
        "get_prop obj ''story'' = Inr None \<or> get_prop obj ''visual'' = Inr None
           \<or> get_prop obj ''emotion'' = Inr None"
    by (elim disjE exE conjE) simp_all
  then show "isl (analyze_try env segment text)"
  proof cases
    case nomatch
    then show ?thesis by (simp add: analyze_try_def)
  next
    case noparse
    then show ?thesis by (auto simp: analyze_try_def split: sum.splits)
  next
    case nofield
    from nofield(3) have "isl (required_fields obj)" by (rule required_fields_missing)
    then show ?thesis using nofield(1,2) by (auto simp: analyze_try_def split: sum.splits)
  qed
qed

lemma no_emotion_text:
  \<open>match_braces ''{"story":"s","visual":"v"}'' = Some ''{"story":"s","visual":"v"}''\<close>
  by (simp add: match_braces_def)

theorem malformed_analysis_fails_witness:
  "analyzeAudioSegment gemini_no_emotion demo_segment = Inl (JsError (Lit AnalysisFailed))"
proof -
  have a: \<open>analysisCall gemini_no_emotion = Inr ''{"story":"s","visual":"v"}''\<close>
    by (simp add: gemini_no_emotion_def)
  have p: \<open>JSON_parse gemini_no_emotion ''{"story":"s","visual":"v"}''
      = Inr (JObj [(''story'', JStr (Raw ''s'')), (''visual'', JStr (Raw ''v''))])\<close>
    by (simp add: gemini_no_emotion_def demo_parse_def)
  have g: "get_prop (JObj [(''story'', JStr (Raw ''s'')), (''visual'', JStr (Raw ''v''))]) ''emotion''
      = Inr None" by simp
  show ?thesis
    by (rule malformed_analysis_fails [OF a]) (use no_emotion_text p g in blast)
qed

lemma demo_analysis_text:
  \<open>match_braces ''Here: {"story":"s","visual":"v","emotion":"e"} done''
     = Some ''{"story":"s","visual":"v","emotion":"e"}''\<close>
  by (simp add: match_braces_def)

text \<open>
  Claim C3 as stated fails. In both runs the primary analysis has succeeded (the same
  first response with a well-formed second response gives a result); when the second
  call throws, and when its braces hold text that is not JSON, the whole analysis
  fails instead of returning an empty \<open>imagePrompt\<close>.
\<close>

theorem prompt_soft_fail_counterexample:
  \<open>analyzeAudioSegment (gemini_prompt_throws\<lparr>promptCall := Inr ''{}''\<rparr>) demo_segment
     = Inr \<lparr>startTime = 0, endTime = 30, story = JStr (Raw ''s''), visual = JStr (Raw ''v''),
            emotion = JStr (Raw ''e''), imagePrompt = JStr (Raw '''')\<rparr>
   \<and> promptCall gemini_prompt_throws = Inl (JsError (Raw ''fetch failed''))
   \<and> analyzeAudioSegment gemini_prompt_throws demo_segment = Inl (JsError (Lit AnalysisFailed))
   \<and> analyzeAudioSegment gemini_prompt_garbled demo_segment = Inl (JsError (Lit AnalysisFailed))\<close>
  by (simp add: analyzeAudioSegment_def analyze_try_def gemini_prompt_throws_def
      gemini_prompt_garbled_def demo_analysis_text demo_parse_def required_fields_def
      truthy_def prompt_of_response_def str_or_def js_or_def demo_segment_def match_braces_def)

lemma analyze_try_primary:
  assumes "match_braces text = Some m" "JSON_parse env m = Inr obj"
    "required_fields obj = Inr (s, v, e)"
  shows "analyze_try env segment text =
     (case promptCall env of
        Inl x \<Rightarrow> Inl x
      | Inr promptText \<Rightarrow>
          (case prompt_of_response env promptText of
             Inl x \<Rightarrow> Inl x
           | Inr p \<Rightarrow>
               Inr \<lparr>startTime = startTime segment, endTime = endTime segment,
                    story = s, visual = v, emotion = e, imagePrompt = p\<rparr>))"
  using assms by (simp add: analyze_try_def)

text \<open>
  Claim C3, amended. For a segment whose primary analysis succeeds: when the text of
  the prompt-synthesis response holds no brace span (and the parser reads \<open>{}\<close> as the
  empty object), or its brace span parses to a value without a truthy
  \<open>imagePrompt\<close>, \<open>analyzeAudioSegment\<close> returns the parsed \<open>story\<close>, \<open>visual\<close>
  and \<open>emotion\<close> with the empty string as \<open>imagePrompt\<close>; when the prompt-synthesis
  call throws, or its brace span is not parseable, the whole analysis fails with the
  analysis-failed error.
\<close>

theorem prompt_soft_fail:
  assumes "analysisCall env = Inr text" "match_braces text = Some m"
    "JSON_parse env m = Inr obj" "required_fields obj = Inr (s, v, e)"
  shows "(promptCall env = Inr ptext \<and> match_braces ptext = None
            \<and> JSON_parse env ''{}'' = Inr (JObj [])
          \<longrightarrow> analyzeAudioSegment env segment = Inr \<lparr>startTime = startTime segment, endTime = endTime segment,
                 story = s, visual = v, emotion = e, imagePrompt = JStr (Raw '''')\<rparr>)
       \<and> (promptCall env = Inr ptext \<and> match_braces ptext = Some pm
            \<and> JSON_parse env pm = Inr pobj \<and> get_prop pobj ''imagePrompt'' = Inr p
            \<and> \<not> truthy p
          \<longrightarrow> analyzeAudioSegment env segment = Inr \<lparr>startTime = startTime segment, endTime = endTime segment,
                 story = s, visual = v, emotion = e, imagePrompt = JStr (Raw '''')\<rparr>)
       \<and> (isl (promptCall env)
          \<longrightarrow> analyzeAudioSegment env segment = Inl (JsError (Lit AnalysisFailed)))
       \<and> (promptCall env = Inr ptext \<and> match_braces ptext = Some pm
            \<and> isl (JSON_parse env pm)
          \<longrightarrow> analyzeAudioSegment env segment = Inl (JsError (Lit AnalysisFailed)))"
proof -
  note t = analyze_try_primary [OF assms(2,3,4), of segment]
  have a: "analyzeAudioSegment env segment =
     (case analyze_try env segment text of
        Inl error \<Rightarrow> Inl (JsError (Lit AnalysisFailed)) | Inr result \<Rightarrow> Inr result)"
    using assms(1) by (simp add: analyzeAudioSegment_def)
  have ne: "match_braces ptext = Some pm \<Longrightarrow> str_or (Some pm) ''{}'' = pm"
    using match_braces_nonempty [of ptext pm] by (simp add: str_or_def)
  have c1: "promptCall env = Inr ptext \<and> match_braces ptext = None
            \<and> JSON_parse env ''{}'' = Inr (JObj [])
          \<longrightarrow> analyzeAudioSegment env segment = Inr \<lparr>startTime = startTime segment, endTime = endTime segment,
                 story = s, visual = v, emotion = e, imagePrompt = JStr (Raw '''')\<rparr>"
    unfolding a t by (simp add: prompt_of_response_def str_or_def js_or_def truthy_def)
  have c2: "promptCall env = Inr ptext \<and> match_braces ptext = Some pm
            \<and> JSON_parse env pm = Inr pobj \<and> get_prop pobj ''imagePrompt'' = Inr p
            \<and> \<not> truthy p
          \<longrightarrow> analyzeAudioSegment env segment = Inr \<lparr>startTime = startTime segment, endTime = endTime segment,
                 story = s, visual = v, emotion = e, imagePrompt = JStr (Raw '''')\<rparr>"
    unfolding a t
    by (auto simp: prompt_of_response_def ne js_or_def)
  have c3: "isl (promptCall env)
          \<longrightarrow> analyzeAudioSegment env segment = Inl (JsError (Lit AnalysisFailed))"
    unfolding a t by (cases "promptCall env") simp_all
  have c4: "promptCall env = Inr ptext \<and> match_braces ptext = Some pm
            \<and> isl (JSON_parse env pm)
          \<longrightarrow> analyzeAudioSegment env segment = Inl (JsError (Lit AnalysisFailed))"
    unfolding a t
    by (cases "JSON_parse env pm") (auto simp: prompt_of_response_def ne)
  show ?thesis using c1 c2 c3 c4 by (intro conjI)
qed

theorem prompt_soft_fail_witness:
  \<open>analyzeAudioSegment gemini_prompt_plain demo_segment
     = Inr \<lparr>startTime = 0, endTime = 30, story = JStr (Raw ''s''), visual = JStr (Raw ''v''),
            emotion = JStr (Raw ''e''), imagePrompt = JStr (Raw '''')\<rparr>
   \<and> analyzeAudioSegment gemini_prompt_throws demo_segment = Inl (JsError (Lit AnalysisFailed))\<close>
proof -
  let ?obj = "JObj [(''story'', JStr (Raw ''s'')), (''visual'', JStr (Raw ''v'')),
                    (''emotion'', JStr (Raw ''e''))]"
  have r: "required_fields ?obj = Inr (JStr (Raw ''s''), JStr (Raw ''v''), JStr (Raw ''e''))"
    by (simp add: required_fields_def truthy_def)
  have p: \<open>JSON_parse gemini_prompt_plain ''{"story":"s","visual":"v","emotion":"e"}'' = Inr ?obj\<close>
    \<open>JSON_parse gemini_prompt_throws ''{"story":"s","visual":"v","emotion":"e"}'' = Inr ?obj\<close>
    by (simp_all add: gemini_prompt_plain_def gemini_prompt_throws_def demo_parse_def)
  have a: \<open>analysisCall gemini_prompt_plain = Inr ''Here: {"story":"s","visual":"v","emotion":"e"} done''\<close>
    \<open>analysisCall gemini_prompt_throws = Inr ''Here: {"story":"s","visual":"v","emotion":"e"} done''\<close>
    by (simp_all add: gemini_prompt_plain_def gemini_prompt_throws_def)
  have plain: "promptCall gemini_prompt_plain = Inr ''a calm sea at dusk''
      \<and> match_braces ''a calm sea at dusk'' = None
      \<and> JSON_parse gemini_prompt_plain ''{}'' = Inr (JObj [])"
    by (simp add: gemini_prompt_plain_def match_braces_def demo_parse_def)
  have throws: "isl (promptCall gemini_prompt_throws)"
    by (simp add: gemini_prompt_throws_def)
  have "analyzeAudioSegment gemini_prompt_plain demo_segment
     = Inr \<lparr>startTime = startTime demo_segment, endTime = endTime demo_segment,
            story = JStr (Raw ''s''), visual = JStr (Raw ''v''),
            emotion = JStr (Raw ''e''), imagePrompt = JStr (Raw '''')\<rparr>"
    using prompt_soft_fail [OF a(1) demo_analysis_text p(1) r, of "''a calm sea at dusk''" demo_segment]
      plain by blast
  moreover have "analyzeAudioSegment gemini_prompt_throws demo_segment
     = Inl (JsError (Lit AnalysisFailed))"
    using prompt_soft_fail [OF a(2) demo_analysis_text p(2) r, of _ demo_segment] throws by blast
  ultimately show ?thesis by (simp add: demo_segment_def)
qed

section \<open>Properties of the polling loop\<close>

text \<open>The defining equation of the loop is unfolded by hand, one round at a time.\<close>

declare poll_loop.simps [simp del]


lemma poll_step:
  assumes "attempts < maxAttempts" "in_progress env jobId attempts"
  shows "poll_loop env jobId attempts =
     (fst (poll_loop env jobId (attempts + 1)),
      status_query env jobId # Sleep pollingInterval # snd (poll_loop env jobId (attempts + 1)))"
  using assms
  by (subst poll_loop.simps) (auto simp: in_progress_def status_query_def split: sum.splits)

lemma poll_skip:
  assumes "\<forall>j. a \<le> j \<and> j < a + k \<longrightarrow> in_progress env jobId j" "a + k \<le> maxAttempts"
  shows "poll_loop env jobId a =
     (fst (poll_loop env jobId (a + k)),
      concat (replicate k [status_query env jobId, Sleep pollingInterval])
        @ snd (poll_loop env jobId (a + k)))"
  using assms
proof (induction k arbitrary: a)
  case 0
  then show ?case by simp
next
  case (Suc k)
  have a: "a < maxAttempts" "in_progress env jobId a" using Suc.prems by auto
  have "poll_loop env jobId (a + 1) =
     (fst (poll_loop env jobId (a + 1 + k)),
      concat (replicate k [status_query env jobId, Sleep pollingInterval])
        @ snd (poll_loop env jobId (a + 1 + k)))"
    using Suc.prems by (intro Suc.IH) auto
  then show ?case unfolding poll_step [OF a] by simp
qed

lemma poll_completed:
  assumes "n < maxAttempts" "reports env jobId n ''completed'' st"
  shows "poll_loop env jobId n =
     (Inr \<lparr>id' = opt_prop (Some st) ''id'', state = Completed,
           imageUrl = js_or (opt_prop (opt_prop (Some st) ''assets'') ''video_0_thumb'')
                        (opt_prop (opt_prop (Some st) ''assets'') ''image''),
           videoUrl = opt_prop (opt_prop (Some st) ''assets'') ''video'',
           failure_reason = None\<rparr>,
      [status_query env jobId])"
  using assms
  by (subst poll_loop.simps) (auto simp: reports_def status_query_def split: sum.splits)

lemma poll_failed:
  assumes "n < maxAttempts" "reports env jobId n ''failed'' st"
  shows "poll_loop env jobId n =
     (Inr \<lparr>id' = opt_prop (Some st) ''id'', state = Failed, imageUrl = None, videoUrl = None,
           failure_reason = opt_prop (Some st) ''failure_reason''\<rparr>,
      [status_query env jobId])"
  using assms
  by (subst poll_loop.simps) (auto simp: reports_def status_query_def split: sum.splits)

lemma poll_exhausted:
  "poll_loop env jobId maxAttempts = (Inl (JsError (Lit GenerationTimedOut)), [])"
  by (subst poll_loop.simps) simp

lemma poll_queries_le:
  "length (filter is_query (snd (poll_loop env jobId a))) \<le> maxAttempts - a"
proof (induction env jobId a rule: poll_loop.induct)
  case (1 env jobId attempts)
  show ?case
    apply (subst poll_loop.simps)
    using 1 by (fastforce split: sum.splits)
qed

lemma poll_events_subset:
  "set (snd (poll_loop env jobId a)) \<subseteq> {status_query env jobId, Sleep pollingInterval}"
proof (induction env jobId a rule: poll_loop.induct)
  case (1 env jobId attempts)
  show ?case
    apply (subst poll_loop.simps)
    using 1 by (auto simp: status_query_def split: sum.splits)
qed

lemma queries_replicate:
  "length (filter is_query (concat (replicate k [status_query env jobId, Sleep t]))) = k"
  by (induction k) (simp_all add: status_query_def)

lemma poll_returns_completed:
  assumes "n < 30" "\<forall>j<n. in_progress env jobId j" "reports env jobId n ''completed'' st"
  shows "pollGenerationStatus env jobId =
     (Inr \<lparr>id' = opt_prop (Some st) ''id'', state = Completed,
           imageUrl = js_or (opt_prop (opt_prop (Some st) ''assets'') ''video_0_thumb'')
                        (opt_prop (opt_prop (Some st) ''assets'') ''image''),
           videoUrl = opt_prop (opt_prop (Some st) ''assets'') ''video'',
           failure_reason = None\<rparr>,
      concat (replicate n [status_query env jobId, Sleep 2000]) @ [status_query env jobId])"
proof -
  have n: "n < maxAttempts" and s: "\<forall>j. 0 \<le> j \<and> j < 0 + n \<longrightarrow> in_progress env jobId j"
    and le: "0 + n \<le> maxAttempts"
    using assms by (simp_all add: maxAttempts_def)
  show ?thesis
    unfolding pollGenerationStatus_def poll_skip [OF s le]
    using poll_completed [OF n assms(3)] by (simp add: pollingInterval_def)
qed

lemma poll_returns_failed:
  assumes "n < 30" "\<forall>j<n. in_progress env jobId j" "reports env jobId n ''failed'' st"
  shows "pollGenerationStatus env jobId =
     (Inr \<lparr>id' = opt_prop (Some st) ''id'', state = Failed, imageUrl = None,
           videoUrl = None, failure_reason = opt_prop (Some st) ''failure_reason''\<rparr>,
      concat (replicate n [status_query env jobId, Sleep 2000]) @ [status_query env jobId])"
proof -
  have n: "n < maxAttempts" and s: "\<forall>j. 0 \<le> j \<and> j < 0 + n \<longrightarrow> in_progress env jobId j"
    and le: "0 + n \<le> maxAttempts"
    using assms by (simp_all add: maxAttempts_def)
  show ?thesis
    unfolding pollGenerationStatus_def poll_skip [OF s le]
    using poll_failed [OF n assms(3)] by (simp add: pollingInterval_def)
qed

lemma poll_times_out:
  assumes "\<forall>j<30. in_progress env jobId j"
  shows "pollGenerationStatus env jobId =
     (Inl (JsError (Lit GenerationTimedOut)),
      concat (replicate 30 [status_query env jobId, Sleep 2000]))"
proof -
  have s: "\<forall>j. 0 \<le> j \<and> j < 0 + maxAttempts \<longrightarrow> in_progress env jobId j"
    using assms by (simp add: maxAttempts_def)
  have le: "0 + maxAttempts \<le> maxAttempts" by simp
  show ?thesis
    unfolding pollGenerationStatus_def poll_skip [OF s le]
    by (simp add: poll_exhausted) (simp add: maxAttempts_def pollingInterval_def)
qed

lemma poll_fetch_throws:
  assumes "n < maxAttempts" "statusResponse env jobId n = Inl e"
  shows "poll_loop env jobId n = (Inl e, [status_query env jobId])"
  using assms by (subst poll_loop.simps) (simp add: status_query_def)

lemma poll_not_ok:
  assumes "n < maxAttempts" "statusResponse env jobId n = Inr response" "\<not> ok response"
  shows "poll_loop env jobId n =
     (Inr \<lparr>id' = jobId, state = Failed, imageUrl = None, videoUrl = None,
           failure_reason = Some (error_message StatusFetchFailed StatusFetchFailedWith response)\<rparr>,
      [status_query env jobId])"
  using assms by (subst poll_loop.simps) (simp add: status_query_def)

lemma poll_unreadable:
  assumes "n < maxAttempts" "statusResponse env jobId n = Inr response" "ok response"
    "json response = Inl e"
  shows "poll_loop env jobId n = (Inl e, [status_query env jobId])"
  using assms by (subst poll_loop.simps) (simp add: status_query_def)

lemma poll_no_state:
  assumes "n < maxAttempts" "statusResponse env jobId n = Inr response" "ok response"
    "json response = Inr st" "get_prop st ''state'' = Inl e"
  shows "poll_loop env jobId n = (Inl e, [status_query env jobId])"
  using assms by (subst poll_loop.simps) (simp add: status_query_def)

lemma poll_after:
  assumes "n < 30" "\<forall>j<n. in_progress env jobId j"
  shows "pollGenerationStatus env jobId =
     (fst (poll_loop env jobId n),
      concat (replicate n [status_query env jobId, Sleep 2000]) @ snd (poll_loop env jobId n))"
proof -
  have s: "\<forall>j. 0 \<le> j \<and> j < 0 + n \<longrightarrow> in_progress env jobId j"
    and le: "0 + n \<le> maxAttempts"
    using assms by (simp_all add: maxAttempts_def)
  show ?thesis
    unfolding pollGenerationStatus_def poll_skip [OF s le] by (simp add: pollingInterval_def)
qed

text \<open>
  Claim C5. \<open>pollGenerationStatus\<close> makes at most 30 status queries, with a wait
  of 2000 milliseconds after each query that finds the job neither completed nor
  failed, and nothing else. When the query number \<open>n\<close> (after \<open>n\<close> queries that
  found the job in progress) reports \<open>completed\<close>, the job is returned with
  \<open>imageUrl\<close> and \<open>videoUrl\<close> taken from the assets of that report; when it reports
  \<open>failed\<close>, the job is returned at once with the \<open>failure_reason\<close> of the report;
  when all 30 queries find the job in progress, the timeout error is thrown after
  the 30th wait, and no further query is made.
\<close>

theorem poll_status_bounded:
  "length (filter is_query (snd (pollGenerationStatus env jobId))) \<le> 30
   \<and> set (snd (pollGenerationStatus env jobId)) \<subseteq> {status_query env jobId, Sleep 2000}
   \<and> (n < 30 \<and> (\<forall>j<n. in_progress env jobId j) \<and> reports env jobId n ''completed'' st
        \<longrightarrow> pollGenerationStatus env jobId =
             (Inr \<lparr>id' = opt_prop (Some st) ''id'', state = Completed,
                   imageUrl = js_or (opt_prop (opt_prop (Some st) ''assets'') ''video_0_thumb'')
                                (opt_prop (opt_prop (Some st) ''assets'') ''image''),
                   videoUrl = opt_prop (opt_prop (Some st) ''assets'') ''video'',
                   failure_reason = None\<rparr>,
              concat (replicate n [status_query env jobId, Sleep 2000])
                @ [status_query env jobId]))
   \<and> (n < 30 \<and> (\<forall>j<n. in_progress env jobId j) \<and> reports env jobId n ''failed'' st
        \<longrightarrow> pollGenerationStatus env jobId =
             (Inr \<lparr>id' = opt_prop (Some st) ''id'', state = Failed, imageUrl = None,
                   videoUrl = None, failure_reason = opt_prop (Some st) ''failure_reason''\<rparr>,
              concat (replicate n [status_query env jobId, Sleep 2000])
                @ [status_query env jobId]))
   \<and> ((\<forall>j<30. in_progress env jobId j)
        \<longrightarrow> pollGenerationStatus env jobId =
             (Inl (JsError (Lit GenerationTimedOut)),
              concat (replicate 30 [status_query env jobId, Sleep 2000])))"
proof (intro conjI impI)
  show "length (filter is_query (snd (pollGenerationStatus env jobId))) \<le> 30"
    using poll_queries_le [of env jobId 0] by (simp add: pollGenerationStatus_def maxAttempts_def)
  show "set (snd (pollGenerationStatus env jobId)) \<subseteq> {status_query env jobId, Sleep 2000}"
    using poll_events_subset [of env jobId 0]
    by (simp add: pollGenerationStatus_def pollingInterval_def)
qed (simp_all add: poll_returns_completed poll_returns_failed poll_times_out)

theorem poll_status_bounded_witness:
  "fst (pollGenerationStatus net_processing demo_id) = Inl (JsError (Lit GenerationTimedOut))
   \<and> length (filter is_query (snd (pollGenerationStatus net_processing demo_id))) = 30
   \<and> pollGenerationStatus net_completes demo_id =
        (Inr \<lparr>id' = Some (JStr (Raw ''job-1'')), state = Completed,
              imageUrl = Some (JStr (Raw ''https://cdn/1.png'')), videoUrl = None,
              failure_reason = None\<rparr>,
         [status_query net_completes demo_id, Sleep 2000,
          status_query net_completes demo_id, Sleep 2000,
          status_query net_completes demo_id])
   \<and> fst (pollGenerationStatus net_fails_silently demo_id) =
        Inr \<lparr>id' = Some (JStr (Raw ''job-1'')), state = Failed, imageUrl = None,
             videoUrl = None, failure_reason = None\<rparr>"
proof -
  have p: "\<forall>j<30. in_progress net_processing demo_id j"
    by (simp add: in_progress_def net_processing_def http_ok_def)
  have c: "(2::nat) < 30 \<and> (\<forall>j<2. in_progress net_completes demo_id j)
      \<and> reports net_completes demo_id 2 ''completed'' completed_status"
    by (simp add: in_progress_def reports_def net_completes_def http_ok_def completed_status_def)
  have f: "(0::nat) < 30 \<and> (\<forall>j<0. in_progress net_fails_silently demo_id j)
      \<and> reports net_fails_silently demo_id 0 ''failed''
            (JObj [(''id'', JStr (Raw ''job-1'')), (''state'', JStr (Raw ''failed''))])"
    by (simp add: reports_def net_fails_silently_def http_ok_def)
  have 1: "pollGenerationStatus net_processing demo_id =
      (Inl (JsError (Lit GenerationTimedOut)),
       concat (replicate 30 [status_query net_processing demo_id, Sleep 2000]))"
    using poll_status_bounded [of net_processing demo_id] p by blast
  have 2: "pollGenerationStatus net_completes demo_id =
      (Inr \<lparr>id' = opt_prop (Some completed_status) ''id'', state = Completed,
            imageUrl = js_or (opt_prop (opt_prop (Some completed_status) ''assets'') ''video_0_thumb'')
                         (opt_prop (opt_prop (Some completed_status) ''assets'') ''image''),
            videoUrl = opt_prop (opt_prop (Some completed_status) ''assets'') ''video'',
            failure_reason = None\<rparr>,
       concat (replicate 2 [status_query net_completes demo_id, Sleep 2000])
         @ [status_query net_completes demo_id])"
    using poll_status_bounded [of net_completes demo_id 2 completed_status] c by blast
  have 3: "pollGenerationStatus net_fails_silently demo_id =
      (Inr \<lparr>id' = opt_prop (Some (JObj [(''id'', JStr (Raw ''job-1'')), (''state'', JStr (Raw ''failed''))])) ''id'',
            state = Failed, imageUrl = None, videoUrl = None,
            failure_reason = opt_prop (Some (JObj [(''id'', JStr (Raw ''job-1'')), (''state'', JStr (Raw ''failed''))])) ''failure_reason''\<rparr>,
       concat (replicate 0 [status_query net_fails_silently demo_id, Sleep 2000])
         @ [status_query net_fails_silently demo_id])"
    using poll_status_bounded [of net_fails_silently demo_id 0
        "JObj [(''id'', JStr (Raw ''job-1'')), (''state'', JStr (Raw ''failed''))]"] f by blast
  show ?thesis unfolding 1 2 3
    by (simp add: completed_status_def js_or_def truthy_def queries_replicate numeral_2_eq_2)
qed

section \<open>Properties of submission\<close>

lemma js_or_truthy: "truthy b \<Longrightarrow> truthy (js_or a b)"
  by (simp add: js_or_def)

lemma truthy_the: "truthy v \<Longrightarrow> truthy_val (the v)"
  by (cases v) (simp_all add: truthy_def)

lemma fallback_truthy:
  "truthy_val (the (js_or a (js_or b (Some (JStr (Lit generic))))))"
proof -
  have "truthy (Some (JStr (Lit generic)))" by (simp add: truthy_def)
  then show ?thesis by (intro truthy_the js_or_truthy)
qed

lemma error_message_truthy: "truthy_val (error_message generic with_status response)"
  by (auto simp: error_message_def fallback_truthy split: sum.splits)

lemma error_message_parsed:
  assumes "json response = Inr errorData" "get_prop errorData ''detail'' = Inr detail"
  shows "error_message generic with_status response =
     (if detail = Some (JStr (Raw ''Insufficient credits'')) then JStr (Lit InsufficientCredits)
      else if truthy detail then the detail
      else if truthy (opt_prop (Some errorData) ''message'')
        then the (opt_prop (Some errorData) ''message'')
      else JStr (Lit generic))"
  using assms by (simp add: error_message_def js_or_def)

lemma error_message_unreadable:
  assumes "isl (json response) \<or> json response = Inr JNull"
  shows "error_message generic with_status response =
     JStr (Lit (with_status (status response) (statusText response)))"
  using assms by (auto simp: error_message_def split: sum.splits)

lemma submit_throws:
  assumes "createResponse env b = Inl e"
  shows "submit_and_poll env b generic with_status = (Inl e, [Fetch (PostCreate (auth_headers env) b)])"
  using assms by (simp add: submit_and_poll_def)

lemma submit_rejected:
  assumes "createResponse env b = Inr response" "\<not> ok response"
  shows "submit_and_poll env b generic with_status =
     (Inr \<lparr>id' = Some (JStr (Raw ''error'')), state = Failed, imageUrl = None, videoUrl = None,
           failure_reason = Some (error_message generic with_status response)\<rparr>,
      [Fetch (PostCreate (auth_headers env) b)])"
  using assms by (simp add: submit_and_poll_def)

lemma submit_polls:
  assumes "createResponse env b = Inr response" "ok response" "json response = Inr generation"
    "get_prop generation ''id'' = Inr jobId"
  shows "submit_and_poll env b generic with_status =
     (fst (pollGenerationStatus env jobId),
      Fetch (PostCreate (auth_headers env) b) # snd (pollGenerationStatus env jobId))"
  using assms by (simp add: submit_and_poll_def)

lemma catch_failed_Inl:
  "fst run = Inl e \<Longrightarrow> catch_failed run =
     (Inr \<lparr>id' = Some (JStr (Raw ''unknown'')), state = Failed, imageUrl = None,
           videoUrl = None, failure_reason = Some (exn_reason e)\<rparr>, snd run)"
  by (simp add: catch_failed_def)

lemma catch_failed_Inr: "fst run = Inr r \<Longrightarrow> catch_failed run = run"
  by (simp add: catch_failed_def)

lemma catch_failed_returns: "\<exists>r. fst (catch_failed run) = Inr r"
  by (cases "fst run") (simp_all add: catch_failed_def)

text \<open>
  Claim C6 as stated fails: a creation request answered with status 500 and the JSON
  body \<open>{}\<close> is returned with the generic message that does not hold the status.
\<close>

theorem creation_failure_reason_counterexample:
  "createResponse net_rejects (image_body demo_options)
     = Inr \<lparr>ok = False, status = 500, statusText = ''Internal Server Error'',
            json = Inr (JObj [])\<rparr>
   \<and> fst (generateLumaImage net_rejects demo_options)
     = Inr \<lparr>id' = Some (JStr (Raw ''error'')), state = Failed, imageUrl = None, videoUrl = None,
            failure_reason = Some (JStr (Lit ImageRequestFailed))\<rparr>
   \<and> JStr (Lit ImageRequestFailed)
     \<noteq> JStr (Lit (ImageRequestFailedWith 500 ''Internal Server Error''))"
  by (simp add: generateLumaImage_def submit_and_poll_def catch_failed_def net_rejects_def
      error_message_def js_or_def truthy_def)

text \<open>
  Claim C6, amended. For a creation request answered with a non-success status,
  \<open>generateLumaImage\<close> returns (and makes no further request) a job in state
  \<open>failed\<close> with the id \<open>error\<close> and a reason: when the body is JSON and not
  \<open>null\<close>, the insufficient-credits message if its \<open>detail\<close> is the string
  \<open>Insufficient credits\<close>, else its \<open>detail\<close> if truthy, else its \<open>message\<close> if
  truthy, else the generic message without the status; when the body is not JSON or
  is \<open>null\<close>, the generic message with the HTTP status and status text. When
  \<open>fetch\<close> throws, the \<open>catch\<close> returns a job in state \<open>failed\<close> with the id
  \<open>unknown\<close> and the message of the exception as reason.
\<close>

theorem creation_failure_reason:
  "(createResponse env (image_body options) = Inr response \<and> \<not> ok response \<longrightarrow>
      (\<exists>reason.
         generateLumaImage env options =
           (Inr \<lparr>id' = Some (JStr (Raw ''error'')), state = Failed, imageUrl = None,
                 videoUrl = None, failure_reason = Some reason\<rparr>,
            [Fetch (PostCreate (auth_headers env) (image_body options))])
         \<and> (\<forall>errorData detail.
               json response = Inr errorData \<and> get_prop errorData ''detail'' = Inr detail \<longrightarrow>
               reason =
                 (if detail = Some (JStr (Raw ''Insufficient credits''))
                    then JStr (Lit InsufficientCredits)
                  else if truthy detail then the detail
                  else if truthy (opt_prop (Some errorData) ''message'')
                    then the (opt_prop (Some errorData) ''message'')
                  else JStr (Lit ImageRequestFailed)))
         \<and> (isl (json response) \<or> json response = Inr JNull \<longrightarrow>
               reason = JStr (Lit (ImageRequestFailedWith (status response) (statusText response))))))
   \<and> (createResponse env (image_body options) = Inl e \<longrightarrow>
        generateLumaImage env options =
          (Inr \<lparr>id' = Some (JStr (Raw ''unknown'')), state = Failed, imageUrl = None,
                videoUrl = None, failure_reason = Some (exn_reason e)\<rparr>,
           [Fetch (PostCreate (auth_headers env) (image_body options))]))"
proof (intro conjI impI)
  assume a: "createResponse env (image_body options) = Inr response \<and> \<not> ok response"
  let ?reason = "error_message ImageRequestFailed ImageRequestFailedWith response"
  have run: "generateLumaImage env options =
      (Inr \<lparr>id' = Some (JStr (Raw ''error'')), state = Failed, imageUrl = None,
            videoUrl = None, failure_reason = Some ?reason\<rparr>,
       [Fetch (PostCreate (auth_headers env) (image_body options))])"
    using a by (simp add: generateLumaImage_def submit_rejected catch_failed_Inr)
  have parsed: "\<forall>errorData detail.
      json response = Inr errorData \<and> get_prop errorData ''detail'' = Inr detail \<longrightarrow>
      ?reason =
        (if detail = Some (JStr (Raw ''Insufficient credits''))
           then JStr (Lit InsufficientCredits)
         else if truthy detail then the detail
         else if truthy (opt_prop (Some errorData) ''message'')
           then the (opt_prop (Some errorData) ''message'')
         else JStr (Lit ImageRequestFailed))"
    using error_message_parsed [of response] by blast
  have unreadable: "isl (json response) \<or> json response = Inr JNull \<longrightarrow>
      ?reason = JStr (Lit (ImageRequestFailedWith (status response) (statusText response)))"
    using error_message_unreadable [of response] by blast
  show "\<exists>reason.
      generateLumaImage env options =
        (Inr \<lparr>id' = Some (JStr (Raw ''error'')), state = Failed, imageUrl = None,
              videoUrl = None, failure_reason = Some reason\<rparr>,
         [Fetch (PostCreate (auth_headers env) (image_body options))])
      \<and> (\<forall>errorData detail.
            json response = Inr errorData \<and> get_prop errorData ''detail'' = Inr detail \<longrightarrow>
            reason =
              (if detail = Some (JStr (Raw ''Insufficient credits''))
                 then JStr (Lit InsufficientCredits)
               else if truthy detail then the detail
               else if truthy (opt_prop (Some errorData) ''message'')
                 then the (opt_prop (Some errorData) ''message'')
               else JStr (Lit ImageRequestFailed)))
      \<and> (isl (json response) \<or> json response = Inr JNull \<longrightarrow>
            reason = JStr (Lit (ImageRequestFailedWith (status response) (statusText response))))"
    using run parsed unreadable by (intro exI [of _ ?reason] conjI)
next
  assume "createResponse env (image_body options) = Inl e"
  then show "generateLumaImage env options =
      (Inr \<lparr>id' = Some (JStr (Raw ''unknown'')), state = Failed, imageUrl = None,
            videoUrl = None, failure_reason = Some (exn_reason e)\<rparr>,
       [Fetch (PostCreate (auth_headers env) (image_body options))])"
    by (simp add: generateLumaImage_def submit_throws catch_failed_Inl)
qed

theorem creation_failure_reason_witness:
  "fst (generateLumaImage net_rejects demo_options)
     = Inr \<lparr>id' = Some (JStr (Raw ''error'')), state = Failed, imageUrl = None, videoUrl = None,
            failure_reason = Some (JStr (Lit ImageRequestFailed))\<rparr>
   \<and> fst (generateLumaImage net_down demo_options)
     = Inr \<lparr>id' = Some (JStr (Raw ''unknown'')), state = Failed, imageUrl = None, videoUrl = None,
            failure_reason = Some (JStr (Raw ''Failed to fetch''))\<rparr>"
proof -
  let ?resp = "\<lparr>ok = False, status = 500, statusText = ''Internal Server Error'',
                 json = Inr (JObj [])\<rparr>"
  have r: "createResponse net_rejects (image_body demo_options) = Inr ?resp \<and> \<not> ok ?resp"
    by (simp add: net_rejects_def)
  have j: "json ?resp = Inr (JObj []) \<and> get_prop (JObj []) ''detail'' = Inr None" by simp
  obtain reason where
    1: "generateLumaImage net_rejects demo_options =
          (Inr \<lparr>id' = Some (JStr (Raw ''error'')), state = Failed, imageUrl = None,
                videoUrl = None, failure_reason = Some reason\<rparr>,
           [Fetch (PostCreate (auth_headers net_rejects) (image_body demo_options))])"
    and 2: "\<forall>errorData detail.
          json ?resp = Inr errorData \<and> get_prop errorData ''detail'' = Inr detail \<longrightarrow>
          reason =
            (if detail = Some (JStr (Raw ''Insufficient credits''))
               then JStr (Lit InsufficientCredits)
             else if truthy detail then the detail
             else if truthy (opt_prop (Some errorData) ''message'')
               then the (opt_prop (Some errorData) ''message'')
             else JStr (Lit ImageRequestFailed))"
    using creation_failure_reason [of net_rejects demo_options ?resp] r by blast
  have "reason = JStr (Lit ImageRequestFailed)"
    using 2 [rule_format, OF j] by (simp add: truthy_def)
  then have a: "fst (generateLumaImage net_rejects demo_options)
     = Inr \<lparr>id' = Some (JStr (Raw ''error'')), state = Failed, imageUrl = None, videoUrl = None,
            failure_reason = Some (JStr (Lit ImageRequestFailed))\<rparr>"
    using 1 by simp
  have d: "createResponse net_down (image_body demo_options) = Inl (JsError (Raw ''Failed to fetch''))"
    by (simp add: net_down_def)
  have b: "generateLumaImage net_down demo_options =
     (Inr \<lparr>id' = Some (JStr (Raw ''unknown'')), state = Failed, imageUrl = None,
           videoUrl = None, failure_reason = Some (exn_reason (JsError (Raw ''Failed to fetch'')))\<rparr>,
      [Fetch (PostCreate (auth_headers net_down) (image_body demo_options))])"
    using creation_failure_reason [of net_down demo_options _ "JsError (Raw ''Failed to fetch'')"] d
    by blast
  show ?thesis using a b by (simp add: exn_reason_def)
qed

lemma poll_state:
  "fst (poll_loop env jobId a) = Inr r \<Longrightarrow> state r = Completed \<or> state r = Failed"
proof (induction env jobId a rule: poll_loop.induct)
  case (1 env jobId attempts)
  from "1.prems" show ?case
    apply (subst (asm) poll_loop.simps)
    using "1.IH" by (fastforce split: if_splits sum.splits)
qed

lemma submit_state:
  "fst (submit_and_poll env b generic with_status) = Inr r
     \<Longrightarrow> state r = Completed \<or> state r = Failed"
  using poll_state [of env _ 0 r]
  by (auto simp: submit_and_poll_def pollGenerationStatus_def split: sum.splits if_splits)

lemma catch_failed_state:
  assumes "\<And>r. fst run = Inr r \<Longrightarrow> state r = Completed \<or> state r = Failed"
  shows "\<exists>r. fst (catch_failed run) = Inr r \<and> (state r = Completed \<or> state r = Failed)"
  using assms by (cases "fst run") (simp_all add: catch_failed_def)

lemma image_polls:
  assumes "createResponse env (image_body options) = Inr response" "ok response"
    "json response = Inr generation" "get_prop generation ''id'' = Inr jobId"
    "n < 30" "\<forall>j<n. in_progress env jobId j"
  shows "generateLumaImage env options =
     catch_failed
       (fst (poll_loop env jobId n),
        Fetch (PostCreate (auth_headers env) (image_body options))
          # concat (replicate n [status_query env jobId, Sleep 2000])
          @ snd (poll_loop env jobId n))"
  unfolding generateLumaImage_def submit_polls [OF assms(1-4)] poll_after [OF assms(5,6)]
  by simp

text \<open>
  Claim C10 as stated fails: a job that the upstream service declares failed without
  giving a reason is returned in state \<open>failed\<close> with no \<open>failure_reason\<close> at all.
\<close>

theorem generate_image_never_throws_counterexample:
  "fst (generateLumaImage net_fails_silently demo_options)
     = Inr \<lparr>id' = Some (JStr (Raw ''job-1'')), state = Failed, imageUrl = None,
            videoUrl = None, failure_reason = None\<rparr>"
proof -
  let ?st = "JObj [(''id'', JStr (Raw ''job-1'')), (''state'', JStr (Raw ''failed''))]"
  have "reports net_fails_silently demo_id 0 ''failed'' ?st"
    by (simp add: reports_def net_fails_silently_def http_ok_def)
  then have "pollGenerationStatus net_fails_silently demo_id =
     (Inr \<lparr>id' = opt_prop (Some ?st) ''id'', state = Failed, imageUrl = None,
           videoUrl = None, failure_reason = opt_prop (Some ?st) ''failure_reason''\<rparr>,
      concat (replicate 0 [status_query net_fails_silently demo_id, Sleep 2000])
        @ [status_query net_fails_silently demo_id])"
    by (intro poll_returns_failed) simp_all
  moreover have "createResponse net_fails_silently (image_body demo_options)
      = http_ok (JObj [(''id'', JStr (Raw ''job-1''))])"
    by (simp add: net_fails_silently_def)
  ultimately show ?thesis
    by (simp add: generateLumaImage_def submit_and_poll_def catch_failed_def http_ok_def
        demo_id_def)
qed

text \<open>
  Claim C10, amended. \<open>generateLumaImage\<close> never throws: every run returns a
  response, in state \<open>completed\<close> or \<open>failed\<close>. Whatever the \<open>try\<close> block throws
  is returned in state \<open>failed\<close> with the id \<open>unknown\<close> and the message of the
  exception as reason (the unknown-error message when the thrown value is not an
  \<open>Error\<close>): a transport exception of \<open>fetch\<close>, on the creation request
  or on any status query; a success response whose body cannot be read, or is
  \<open>null\<close>, on the creation request or on a status query; and the timeout that
  \<open>pollGenerationStatus\<close> throws after 30 queries, with the timeout message as
  reason, like any other failure. A non-success response is returned in state
  \<open>failed\<close> with a non-empty reason, with the id \<open>error\<close> for the creation request
  and the id of the job for a status query. A failure declared by the upstream
  service is returned in state \<open>failed\<close> with the \<open>failure_reason\<close> of the upstream
  report, whatever it is, also when there is none. A job reported completed is
  returned in state \<open>completed\<close> with the assets of the report.
\<close>

theorem generate_image_never_throws:
  "(\<exists>r. fst (generateLumaImage env options) = Inr r \<and> (state r = Completed \<or> state r = Failed))
   \<and> (createResponse env (image_body options) = Inl e \<longrightarrow>
        fst (generateLumaImage env options) =
          Inr \<lparr>id' = Some (JStr (Raw ''unknown'')), state = Failed, imageUrl = None,
               videoUrl = None, failure_reason = Some (exn_reason e)\<rparr>)
   \<and> (createResponse env (image_body options) = Inr response \<and> \<not> ok response \<longrightarrow>
        (\<exists>reason.
           fst (generateLumaImage env options) =
             Inr \<lparr>id' = Some (JStr (Raw ''error'')), state = Failed, imageUrl = None,
                  videoUrl = None, failure_reason = Some reason\<rparr>
           \<and> truthy_val reason))
   \<and> (createResponse env (image_body options) = Inr response \<and> ok response
        \<and> json response = Inr generation \<and> get_prop generation ''id'' = Inr jobId
        \<and> (\<forall>j<30. in_progress env jobId j) \<longrightarrow>
        fst (generateLumaImage env options) =
          Inr \<lparr>id' = Some (JStr (Raw ''unknown'')), state = Failed, imageUrl = None,
               videoUrl = None, failure_reason = Some (JStr (Lit GenerationTimedOut))\<rparr>)
   \<and> (createResponse env (image_body options) = Inr response \<and> ok response
        \<and> json response = Inr generation \<and> get_prop generation ''id'' = Inr jobId
        \<and> n < 30 \<and> (\<forall>j<n. in_progress env jobId j) \<and> reports env jobId n ''failed'' st \<longrightarrow>
        fst (generateLumaImage env options) =
          Inr \<lparr>id' = opt_prop (Some st) ''id'', state = Failed, imageUrl = None,
               videoUrl = None, failure_reason = opt_prop (Some st) ''failure_reason''\<rparr>)
   \<and> (createResponse env (image_body options) = Inr response \<and> ok response
        \<and> json response = Inl e \<longrightarrow>
        fst (generateLumaImage env options) =
          Inr \<lparr>id' = Some (JStr (Raw ''unknown'')), state = Failed, imageUrl = None,
               videoUrl = None, failure_reason = Some (exn_reason e)\<rparr>)
   \<and> (createResponse env (image_body options) = Inr response \<and> ok response
        \<and> json response = Inr generation \<and> get_prop generation ''id'' = Inl e \<longrightarrow>
        fst (generateLumaImage env options) =
          Inr \<lparr>id' = Some (JStr (Raw ''unknown'')), state = Failed, imageUrl = None,
               videoUrl = None, failure_reason = Some (exn_reason e)\<rparr>)
   \<and> (createResponse env (image_body options) = Inr response \<and> ok response
        \<and> json response = Inr generation \<and> get_prop generation ''id'' = Inr jobId
        \<and> n < 30 \<and> (\<forall>j<n. in_progress env jobId j)
        \<and> statusResponse env jobId n = Inl e \<longrightarrow>
        fst (generateLumaImage env options) =
          Inr \<lparr>id' = Some (JStr (Raw ''unknown'')), state = Failed, imageUrl = None,
               videoUrl = None, failure_reason = Some (exn_reason e)\<rparr>)
   \<and> (createResponse env (image_body options) = Inr response \<and> ok response
        \<and> json response = Inr generation \<and> get_prop generation ''id'' = Inr jobId
        \<and> n < 30 \<and> (\<forall>j<n. in_progress env jobId j)
        \<and> statusResponse env jobId n = Inr answer \<and> \<not> ok answer \<longrightarrow>
        (\<exists>reason.
           fst (generateLumaImage env options) =
             Inr \<lparr>id' = jobId, state = Failed, imageUrl = None, videoUrl = None,
                  failure_reason = Some reason\<rparr>
           \<and> truthy_val reason))
   \<and> (createResponse env (image_body options) = Inr response \<and> ok response
        \<and> json response = Inr generation \<and> get_prop generation ''id'' = Inr jobId
        \<and> n < 30 \<and> (\<forall>j<n. in_progress env jobId j)
        \<and> statusResponse env jobId n = Inr answer \<and> ok answer \<and> json answer = Inl e \<longrightarrow>
        fst (generateLumaImage env options) =
          Inr \<lparr>id' = Some (JStr (Raw ''unknown'')), state = Failed, imageUrl = None,
               videoUrl = None, failure_reason = Some (exn_reason e)\<rparr>)
   \<and> (createResponse env (image_body options) = Inr response \<and> ok response
        \<and> json response = Inr generation \<and> get_prop generation ''id'' = Inr jobId
        \<and> n < 30 \<and> (\<forall>j<n. in_progress env jobId j)
        \<and> statusResponse env jobId n = Inr answer \<and> ok answer \<and> json answer = Inr st
        \<and> get_prop st ''state'' = Inl e \<longrightarrow>
        fst (generateLumaImage env options) =
          Inr \<lparr>id' = Some (JStr (Raw ''unknown'')), state = Failed, imageUrl = None,
               videoUrl = None, failure_reason = Some (exn_reason e)\<rparr>)
   \<and> (createResponse env (image_body options) = Inr response \<and> ok response
        \<and> json response = Inr generation \<and> get_prop generation ''id'' = Inr jobId
        \<and> n < 30 \<and> (\<forall>j<n. in_progress env jobId j) \<and> reports env jobId n ''completed'' st \<longrightarrow>
        fst (generateLumaImage env options) =
          Inr \<lparr>id' = opt_prop (Some st) ''id'', state = Completed,
               imageUrl = js_or (opt_prop (opt_prop (Some st) ''assets'') ''video_0_thumb'')
                            (opt_prop (opt_prop (Some st) ''assets'') ''image''),
               videoUrl = opt_prop (opt_prop (Some st) ''assets'') ''video'',
               failure_reason = None\<rparr>)
   \<and> exn_reason (JsError msg) = JStr msg
   \<and> exn_reason NonError = JStr (Lit UnknownError)"
proof (intro conjI impI)
  show "\<exists>r. fst (generateLumaImage env options) = Inr r \<and> (state r = Completed \<or> state r = Failed)"
    unfolding generateLumaImage_def by (rule catch_failed_state) (rule submit_state)
next
  assume "createResponse env (image_body options) = Inl e"
  then show "fst (generateLumaImage env options) =
      Inr \<lparr>id' = Some (JStr (Raw ''unknown'')), state = Failed, imageUrl = None,
           videoUrl = None, failure_reason = Some (exn_reason e)\<rparr>"
    by (simp add: generateLumaImage_def submit_throws catch_failed_Inl)
next
  assume "createResponse env (image_body options) = Inr response \<and> \<not> ok response"
  then have "fst (generateLumaImage env options) =
      Inr \<lparr>id' = Some (JStr (Raw ''error'')), state = Failed, imageUrl = None,
           videoUrl = None,
           failure_reason = Some (error_message ImageRequestFailed ImageRequestFailedWith response)\<rparr>"
    by (simp add: generateLumaImage_def submit_rejected catch_failed_Inr)
  then show "\<exists>reason.
      fst (generateLumaImage env options) =
        Inr \<lparr>id' = Some (JStr (Raw ''error'')), state = Failed, imageUrl = None,
             videoUrl = None, failure_reason = Some reason\<rparr>
      \<and> truthy_val reason"
    using error_message_truthy by blast
next
  assume a: "createResponse env (image_body options) = Inr response \<and> ok response
        \<and> json response = Inr generation \<and> get_prop generation ''id'' = Inr jobId
        \<and> (\<forall>j<30. in_progress env jobId j)"
  then have "pollGenerationStatus env jobId =
      (Inl (JsError (Lit GenerationTimedOut)),
       concat (replicate 30 [status_query env jobId, Sleep 2000]))"
    by (intro poll_times_out) simp
  then have "fst (submit_and_poll env (image_body options) ImageRequestFailed ImageRequestFailedWith)
      = Inl (JsError (Lit GenerationTimedOut))"
    using a by (simp add: submit_polls)
  then show "fst (generateLumaImage env options) =
      Inr \<lparr>id' = Some (JStr (Raw ''unknown'')), state = Failed, imageUrl = None,
           videoUrl = None, failure_reason = Some (JStr (Lit GenerationTimedOut))\<rparr>"
    by (simp add: generateLumaImage_def catch_failed_Inl exn_reason_def)
next
  assume a: "createResponse env (image_body options) = Inr response \<and> ok response
        \<and> json response = Inr generation \<and> get_prop generation ''id'' = Inr jobId
        \<and> n < 30 \<and> (\<forall>j<n. in_progress env jobId j) \<and> reports env jobId n ''failed'' st"
  then have n: "n < maxAttempts" by (simp add: maxAttempts_def)
  have pl: "poll_loop env jobId n =
      (Inr \<lparr>id' = opt_prop (Some st) ''id'', state = Failed, imageUrl = None,
            videoUrl = None, failure_reason = opt_prop (Some st) ''failure_reason''\<rparr>,
       [status_query env jobId])"
    using a n by (intro poll_failed [of n env jobId st]) simp_all
  show "fst (generateLumaImage env options) =
      Inr \<lparr>id' = opt_prop (Some st) ''id'', state = Failed, imageUrl = None,
           videoUrl = None, failure_reason = opt_prop (Some st) ''failure_reason''\<rparr>"
    using a by (simp add: image_polls [of env options response generation jobId n] pl
        catch_failed_def)
next
  assume "createResponse env (image_body options) = Inr response \<and> ok response
        \<and> json response = Inl e"
  then show "fst (generateLumaImage env options) =
      Inr \<lparr>id' = Some (JStr (Raw ''unknown'')), state = Failed, imageUrl = None,
           videoUrl = None, failure_reason = Some (exn_reason e)\<rparr>"
    by (simp add: generateLumaImage_def submit_and_poll_def catch_failed_Inl)
next
  assume "createResponse env (image_body options) = Inr response \<and> ok response
        \<and> json response = Inr generation \<and> get_prop generation ''id'' = Inl e"
  then show "fst (generateLumaImage env options) =
      Inr \<lparr>id' = Some (JStr (Raw ''unknown'')), state = Failed, imageUrl = None,
           videoUrl = None, failure_reason = Some (exn_reason e)\<rparr>"
    by (simp add: generateLumaImage_def submit_and_poll_def catch_failed_Inl)
next
  assume a: "createResponse env (image_body options) = Inr response \<and> ok response
        \<and> json response = Inr generation \<and> get_prop generation ''id'' = Inr jobId
        \<and> n < 30 \<and> (\<forall>j<n. in_progress env jobId j)
        \<and> statusResponse env jobId n = Inl e"
  then have n: "n < maxAttempts" by (simp add: maxAttempts_def)
  have pl: "poll_loop env jobId n =
      (Inl e, [status_query env jobId])"
    using a n by (intro poll_fetch_throws [of n env jobId e]) simp_all
  show "fst (generateLumaImage env options) =
      Inr \<lparr>id' = Some (JStr (Raw ''unknown'')), state = Failed, imageUrl = None,
           videoUrl = None, failure_reason = Some (exn_reason e)\<rparr>"
    using a by (simp add: image_polls [of env options response generation jobId n] pl
        catch_failed_def)
next
  assume a: "createResponse env (image_body options) = Inr response \<and> ok response
        \<and> json response = Inr generation \<and> get_prop generation ''id'' = Inr jobId
        \<and> n < 30 \<and> (\<forall>j<n. in_progress env jobId j)
        \<and> statusResponse env jobId n = Inr answer \<and> \<not> ok answer"
  then have n: "n < maxAttempts" by (simp add: maxAttempts_def)
  have pl: "poll_loop env jobId n =
      (Inr \<lparr>id' = jobId, state = Failed, imageUrl = None, videoUrl = None,
            failure_reason = Some (error_message StatusFetchFailed StatusFetchFailedWith answer)\<rparr>,
       [status_query env jobId])"
    using a n by (intro poll_not_ok [of n env jobId answer]) simp_all
  have "fst (generateLumaImage env options) =
      Inr \<lparr>id' = jobId, state = Failed, imageUrl = None, videoUrl = None,
           failure_reason = Some (error_message StatusFetchFailed StatusFetchFailedWith answer)\<rparr>"
    using a by (simp add: image_polls [of env options response generation jobId n] pl
        catch_failed_def)
  then show "\<exists>reason.
      fst (generateLumaImage env options) =
        Inr \<lparr>id' = jobId, state = Failed, imageUrl = None, videoUrl = None,
             failure_reason = Some reason\<rparr>
      \<and> truthy_val reason"
    using error_message_truthy by blast
next
  assume a: "createResponse env (image_body options) = Inr response \<and> ok response
        \<and> json response = Inr generation \<and> get_prop generation ''id'' = Inr jobId
        \<and> n < 30 \<and> (\<forall>j<n. in_progress env jobId j)
        \<and> statusResponse env jobId n = Inr answer \<and> ok answer \<and> json answer = Inl e"
  then have n: "n < maxAttempts" by (simp add: maxAttempts_def)
  have pl: "poll_loop env jobId n =
      (Inl e, [status_query env jobId])"
    using a n by (intro poll_unreadable [of n env jobId answer e]) simp_all
  show "fst (generateLumaImage env options) =
      Inr \<lparr>id' = Some (JStr (Raw ''unknown'')), state = Failed, imageUrl = None,
           videoUrl = None, failure_reason = Some (exn_reason e)\<rparr>"
    using a by (simp add: image_polls [of env options response generation jobId n] pl
        catch_failed_def)
next
  assume a: "createResponse env (image_body options) = Inr response \<and> ok response
        \<and> json response = Inr generation \<and> get_prop generation ''id'' = Inr jobId
        \<and> n < 30 \<and> (\<forall>j<n. in_progress env jobId j)
        \<and> statusResponse env jobId n = Inr answer \<and> ok answer \<and> json answer = Inr st
        \<and> get_prop st ''state'' = Inl e"
  then have n: "n < maxAttempts" by (simp add: maxAttempts_def)
  have pl: "poll_loop env jobId n =
      (Inl e, [status_query env jobId])"
    using a n by (intro poll_no_state [of n env jobId answer st e]) simp_all
  show "fst (generateLumaImage env options) =
      Inr \<lparr>id' = Some (JStr (Raw ''unknown'')), state = Failed, imageUrl = None,
           videoUrl = None, failure_reason = Some (exn_reason e)\<rparr>"
    using a by (simp add: image_polls [of env options response generation jobId n] pl
        catch_failed_def)
next
  assume a: "createResponse env (image_body options) = Inr response \<and> ok response
        \<and> json response = Inr generation \<and> get_prop generation ''id'' = Inr jobId
        \<and> n < 30 \<and> (\<forall>j<n. in_progress env jobId j) \<and> reports env jobId n ''completed'' st"
  then have n: "n < maxAttempts" by (simp add: maxAttempts_def)
  have pl: "poll_loop env jobId n =
      (Inr \<lparr>id' = opt_prop (Some st) ''id'', state = Completed,
            imageUrl = js_or (opt_prop (opt_prop (Some st) ''assets'') ''video_0_thumb'')
                         (opt_prop (opt_prop (Some st) ''assets'') ''image''),
            videoUrl = opt_prop (opt_prop (Some st) ''assets'') ''video'',
            failure_reason = None\<rparr>,
       [status_query env jobId])"
    using a n by (intro poll_completed [of n env jobId st]) simp_all
  show "fst (generateLumaImage env options) =
      Inr \<lparr>id' = opt_prop (Some st) ''id'', state = Completed,
           imageUrl = js_or (opt_prop (opt_prop (Some st) ''assets'') ''video_0_thumb'')
                        (opt_prop (opt_prop (Some st) ''assets'') ''image''),
           videoUrl = opt_prop (opt_prop (Some st) ''assets'') ''video'',
           failure_reason = None\<rparr>"
    using a by (simp add: image_polls [of env options response generation jobId n] pl
        catch_failed_def)
next
  show "exn_reason (JsError msg) = JStr msg" by (simp add: exn_reason_def)
next
  show "exn_reason NonError = JStr (Lit UnknownError)" by (simp add: exn_reason_def)
qed

theorem generate_image_never_throws_witness:
  "fst (generateLumaImage net_processing demo_options) =
      Inr \<lparr>id' = Some (JStr (Raw ''unknown'')), state = Failed, imageUrl = None,
           videoUrl = None, failure_reason = Some (JStr (Lit GenerationTimedOut))\<rparr>
   \<and> fst (generateLumaImage net_down demo_options) =
      Inr \<lparr>id' = Some (JStr (Raw ''unknown'')), state = Failed, imageUrl = None,
           videoUrl = None, failure_reason = Some (JStr (Raw ''Failed to fetch''))\<rparr>
   \<and> fst (generateLumaImage net_loses_contact demo_options) =
      Inr \<lparr>id' = Some (JStr (Raw ''unknown'')), state = Failed, imageUrl = None,
           videoUrl = None, failure_reason = Some (JStr (Raw ''Failed to fetch''))\<rparr>"
proof -
  let ?resp = "\<lparr>ok = True, status = 200, statusText = ''OK'',
                 json = Inr (JObj [(''id'', JStr (Raw ''job-1''))])\<rparr>"
  have p: "createResponse net_processing (image_body demo_options) = Inr ?resp \<and> ok ?resp
      \<and> json ?resp = Inr (JObj [(''id'', JStr (Raw ''job-1''))])
      \<and> get_prop (JObj [(''id'', JStr (Raw ''job-1''))]) ''id'' = Inr demo_id
      \<and> (\<forall>j<30. in_progress net_processing demo_id j)"
    by (simp add: net_processing_def http_ok_def demo_id_def in_progress_def)
  have d: "createResponse net_down (image_body demo_options) = Inl (JsError (Raw ''Failed to fetch''))"
    by (simp add: net_down_def)
  have l: "createResponse net_loses_contact (image_body demo_options) = Inr ?resp \<and> ok ?resp
      \<and> json ?resp = Inr (JObj [(''id'', JStr (Raw ''job-1''))])
      \<and> get_prop (JObj [(''id'', JStr (Raw ''job-1''))]) ''id'' = Inr demo_id
      \<and> (2::nat) < 30 \<and> (\<forall>j<2. in_progress net_loses_contact demo_id j)
      \<and> statusResponse net_loses_contact demo_id 2 = Inl (JsError (Raw ''Failed to fetch''))"
    by (simp add: net_loses_contact_def http_ok_def demo_id_def in_progress_def)
  have "fst (generateLumaImage net_processing demo_options) =
      Inr \<lparr>id' = Some (JStr (Raw ''unknown'')), state = Failed, imageUrl = None,
           videoUrl = None, failure_reason = Some (JStr (Lit GenerationTimedOut))\<rparr>"
    using generate_image_never_throws [where env = net_processing and options = demo_options
        and response = ?resp and generation = "JObj [(''id'', JStr (Raw ''job-1''))]"
        and jobId = demo_id] p by blast
  moreover have "fst (generateLumaImage net_down demo_options) =
      Inr \<lparr>id' = Some (JStr (Raw ''unknown'')), state = Failed, imageUrl = None,
           videoUrl = None, failure_reason = Some (exn_reason (JsError (Raw ''Failed to fetch'')))\<rparr>"
    using generate_image_never_throws [where env = net_down and options = demo_options
        and e = "JsError (Raw ''Failed to fetch'')"] d
    by blast
  moreover have "fst (generateLumaImage net_loses_contact demo_options) =
      Inr \<lparr>id' = Some (JStr (Raw ''unknown'')), state = Failed, imageUrl = None,
           videoUrl = None, failure_reason = Some (exn_reason (JsError (Raw ''Failed to fetch'')))\<rparr>"
    using generate_image_never_throws [where env = net_loses_contact and options = demo_options
        and response = ?resp and generation = "JObj [(''id'', JStr (Raw ''job-1''))]"
        and jobId = demo_id and n = 2 and e = "JsError (Raw ''Failed to fetch'')"] l
    by blast
  ultimately show ?thesis by (simp add: exn_reason_def)
qed

section \<open>Properties of the video assembly\<close>

lemma poll_no_create: "filter is_create (snd (poll_loop env jobId a)) = []"
proof -
  have "\<forall>e \<in> set (snd (poll_loop env jobId a)). \<not> is_create e"
    using poll_events_subset [of env jobId a] by (auto simp: status_query_def)
  then show ?thesis by (simp add: filter_empty_conv)
qed

lemma submit_creates_once:
  "filter is_create (snd (submit_and_poll env b generic with_status))
     = [Fetch (PostCreate (auth_headers env) b)]"
  by (simp add: submit_and_poll_def pollGenerationStatus_def poll_no_create split: sum.splits)

lemma catch_failed_events: "snd (catch_failed run) = snd run"
  by (cases "fst run") (simp_all add: catch_failed_def)

lemma video_creates_once:
  "filter is_create (snd (generateLumaVideo env options))
     = [Fetch (PostCreate (auth_headers env) (video_body options))]"
  by (simp add: generateLumaVideo_def catch_failed_events submit_creates_once)

lemma video_returns: "\<exists>r. fst (generateLumaVideo env options) = Inr r"
  by (simp add: generateLumaVideo_def catch_failed_returns)

lemma keyframes_of_successful:
  assumes "\<forall>img \<in> set imgs. successful img"
  shows "keyframes_of imgs =
     map (\<lambda>(index, img).
            (index, \<lparr>kf_type = ''image'', url = the (imageUrl (imageResponse img)),
                     timing = startTime img\<rparr>))
       (zip [0 ..< length imgs] imgs)"
proof -
  have "filter (\<lambda>(index, img). truthy (imageUrl (imageResponse img))) (zip [0 ..< length imgs] imgs)
      = zip [0 ..< length imgs] imgs"
    using assms by (auto simp: filter_id_conv successful_def dest: set_zip_rightD)
  then show ?thesis by (simp add: keyframes_of_def)
qed

lemma keyframes_of_filter:
  "map fst (keyframes_of (filter successful imgs)) = [0 ..< length (filter successful imgs)]"
  "map snd (keyframes_of (filter successful imgs)) =
     map (\<lambda>img. \<lparr>kf_type = ''image'', url = the (imageUrl (imageResponse img)),
                  timing = startTime img\<rparr>) (filter successful imgs)"
proof -
  let ?s = "filter successful imgs"
  have k: "keyframes_of ?s =
     map (\<lambda>(index, img).
            (index, \<lparr>kf_type = ''image'', url = the (imageUrl (imageResponse img)),
                     timing = startTime img\<rparr>))
       (zip [0 ..< length ?s] ?s)"
    by (rule keyframes_of_successful) simp
  show "map fst (keyframes_of ?s) = [0 ..< length ?s]"
    unfolding k
    by (rule nth_equalityI) (simp_all add: case_prod_unfold)
  show "map snd (keyframes_of ?s) =
     map (\<lambda>img. \<lparr>kf_type = ''image'', url = the (imageUrl (imageResponse img)),
                  timing = startTime img\<rparr>) ?s"
    unfolding k
    by (rule nth_equalityI) (simp_all add: case_prod_unfold)
qed

text \<open>
  Claim C7. When no image of the input is in state \<open>completed\<close> with a truthy
  \<open>imageUrl\<close>, \<open>createVideoFromImages\<close> throws and makes no request. When at
  least one is, it returns a response and makes exactly one creation request, whose
  keyframes are the successful images, in their order, numbered from 0, each with
  its \<open>imageUrl\<close> and its \<open>startTime\<close>.
\<close>

theorem video_needs_one_image:
  "(filter successful generatedImages = [] \<longrightarrow>
      createVideoFromImages env generatedImages audio overallPrompt
        = (Inl (JsError (Lit NoValidImages)), []))
   \<and> (filter successful generatedImages \<noteq> [] \<longrightarrow>
        (\<exists>r. fst (createVideoFromImages env generatedImages audio overallPrompt) = Inr r)
        \<and> (\<exists>frames.
              filter is_create (snd (createVideoFromImages env generatedImages audio overallPrompt))
                = [Fetch (PostCreate (auth_headers env)
                     (VideoBody (JStr (Raw (str_or overallPrompt defaultPrompt))) ''ray-2''
                        frames (audio_of audio)))]
              \<and> map fst frames = [0 ..< length (filter successful generatedImages)]
              \<and> map snd frames =
                  map (\<lambda>img. \<lparr>kf_type = ''image'', url = the (imageUrl (imageResponse img)),
                               timing = startTime img\<rparr>)
                    (filter successful generatedImages)))"
proof (intro conjI impI)
  assume "filter successful generatedImages = []"
  then show "createVideoFromImages env generatedImages audio overallPrompt
      = (Inl (JsError (Lit NoValidImages)), [])"
    by (simp add: createVideoFromImages_def)
next
  assume ne: "filter successful generatedImages \<noteq> []"
  let ?options = "\<lparr>prompt = JStr (Raw (str_or overallPrompt defaultPrompt)), model = Some ''ray-2'',
      keyframes = keyframes_of (filter successful generatedImages), audioUrl = audio\<rparr>"
  show "\<exists>r. fst (createVideoFromImages env generatedImages audio overallPrompt) = Inr r"
    using ne video_returns [of env ?options] by (simp add: createVideoFromImages_def)
  have "filter is_create (snd (createVideoFromImages env generatedImages audio overallPrompt))
      = [Fetch (PostCreate (auth_headers env) (video_body ?options))]"
    using ne by (simp add: createVideoFromImages_def video_creates_once)
  then have "filter is_create (snd (createVideoFromImages env generatedImages audio overallPrompt))
      = [Fetch (PostCreate (auth_headers env)
           (VideoBody (JStr (Raw (str_or overallPrompt defaultPrompt))) ''ray-2''
              (keyframes_of (filter successful generatedImages)) (audio_of audio)))]"
    by (simp add: video_body_def str_or_def)
  then show "\<exists>frames.
      filter is_create (snd (createVideoFromImages env generatedImages audio overallPrompt))
        = [Fetch (PostCreate (auth_headers env)
             (VideoBody (JStr (Raw (str_or overallPrompt defaultPrompt))) ''ray-2''
                frames (audio_of audio)))]
      \<and> map fst frames = [0 ..< length (filter successful generatedImages)]
      \<and> map snd frames =
          map (\<lambda>img. \<lparr>kf_type = ''image'', url = the (imageUrl (imageResponse img)),
                       timing = startTime img\<rparr>)
            (filter successful generatedImages)"
    using keyframes_of_filter [of generatedImages] by blast
qed

lemma four_of_ten_successful:
  "filter successful four_of_ten
     = [demo_media 0 True, demo_media 1 True, demo_media 2 True, demo_media 3 True]"
  by (simp add: four_of_ten_def successful_def demo_media_def truthy_def)

theorem video_needs_one_image_witness:
  "createVideoFromImages net_completes [demo_media 0 False, demo_media 1 False] None None
     = (Inl (JsError (Lit NoValidImages)), [])
   \<and> (\<exists>r. fst (createVideoFromImages net_completes four_of_ten None None) = Inr r)
   \<and> length (filter is_create (snd (createVideoFromImages net_completes four_of_ten None None))) = 1"
proof -
  have none: "filter successful [demo_media 0 False, demo_media 1 False] = []"
    by (simp add: successful_def demo_media_def)
  have some: "filter successful four_of_ten \<noteq> []"
    by (simp add: four_of_ten_successful)
  note t1 = video_needs_one_image [of "[demo_media 0 False, demo_media 1 False]" net_completes None None]
  note t2 = video_needs_one_image [of four_of_ten net_completes None None]
  have a: "createVideoFromImages net_completes [demo_media 0 False, demo_media 1 False] None None
     = (Inl (JsError (Lit NoValidImages)), [])"
    using t1 none by blast
  have b: "\<exists>r. fst (createVideoFromImages net_completes four_of_ten None None) = Inr r"
    using t2 some by blast
  obtain frames where
    "filter is_create (snd (createVideoFromImages net_completes four_of_ten None None))
       = [Fetch (PostCreate (auth_headers net_completes)
            (VideoBody (JStr (Raw (str_or None defaultPrompt))) ''ray-2'' frames (audio_of None)))]"
    using t2 some by blast
  then have c: "length (filter is_create
      (snd (createVideoFromImages net_completes four_of_ten None None))) = 1"
    by simp
  show ?thesis using a b c by blast
qed

text \<open>
  Claim C8. When at least one image succeeded and fewer than half of the images did
  (more than half failed), \<open>createVideoFromImages\<close> first issues the
  degraded-quality warning on the console, then submits the video job all the same:
  the one creation request, and a response is returned.
\<close>

theorem video_warns_when_degraded:
  assumes "filter successful generatedImages \<noteq> []"
    and "2 * length (filter successful generatedImages) < length generatedImages"
  shows "(\<exists>rest.
            snd (createVideoFromImages env generatedImages audio overallPrompt)
              = Warn (DegradedQuality (length (filter successful generatedImages))
                        (length generatedImages)) # rest
            \<and> filter is_create rest
                = [Fetch (PostCreate (auth_headers env)
                     (VideoBody (JStr (Raw (str_or overallPrompt defaultPrompt))) ''ray-2''
                        (keyframes_of (filter successful generatedImages)) (audio_of audio)))])
         \<and> (\<exists>r. fst (createVideoFromImages env generatedImages audio overallPrompt) = Inr r)"
proof -
  let ?options = "\<lparr>prompt = JStr (Raw (str_or overallPrompt defaultPrompt)), model = Some ''ray-2'',
      keyframes = keyframes_of (filter successful generatedImages), audioUrl = audio\<rparr>"
  have "of_nat (2 * length (filter successful generatedImages))
      < (of_nat (length generatedImages) :: rat)"
    using assms(2) by (simp only: of_nat_less_iff)
  then have half: "(of_nat (length (filter successful generatedImages)) :: rat)
      < of_nat (length generatedImages) * (1 / 2)"
    by simp
  have ev: "snd (createVideoFromImages env generatedImages audio overallPrompt)
      = Warn (DegradedQuality (length (filter successful generatedImages))
                (length generatedImages)) # snd (generateLumaVideo env ?options)"
    using assms(1) half by (simp add: createVideoFromImages_def)
  have cr: "filter is_create (snd (generateLumaVideo env ?options))
      = [Fetch (PostCreate (auth_headers env)
           (VideoBody (JStr (Raw (str_or overallPrompt defaultPrompt))) ''ray-2''
              (keyframes_of (filter successful generatedImages)) (audio_of audio)))]"
    by (simp add: video_creates_once video_body_def str_or_def)
  have ret: "\<exists>r. fst (createVideoFromImages env generatedImages audio overallPrompt) = Inr r"
    using assms(1) video_returns [of env ?options] by (simp add: createVideoFromImages_def)
  show ?thesis using ev cr ret by blast
qed

theorem video_warns_when_degraded_witness:
  "(\<exists>rest. snd (createVideoFromImages net_completes four_of_ten None None)
              = Warn (DegradedQuality 4 10) # rest
            \<and> length (filter is_create rest) = 1)
   \<and> (\<exists>r. fst (createVideoFromImages net_completes four_of_ten None None) = Inr r)"
proof -
  have l: "length (filter successful four_of_ten) = 4" "length four_of_ten = 10"
    by (simp_all add: four_of_ten_successful) (simp add: four_of_ten_def)
  have h: "filter successful four_of_ten \<noteq> []"
    "2 * length (filter successful four_of_ten) < length four_of_ten"
    unfolding l by (simp_all add: four_of_ten_successful)
  obtain rest where
    1: "snd (createVideoFromImages net_completes four_of_ten None None)
          = Warn (DegradedQuality (length (filter successful four_of_ten)) (length four_of_ten)) # rest"
    and 2: "filter is_create rest
          = [Fetch (PostCreate (auth_headers net_completes)
               (VideoBody (JStr (Raw (str_or None defaultPrompt))) ''ray-2''
                  (keyframes_of (filter successful four_of_ten)) (audio_of None)))]"
    and 3: "\<exists>r. fst (createVideoFromImages net_completes four_of_ten None None) = Inr r"
    using video_warns_when_degraded [OF h, of net_completes None None] by blast
  have "length (filter is_create rest) = 1" unfolding 2 by simp
  then show ?thesis using 1 3 unfolding l by blast
qed

section \<open>Properties of the batches of image jobs\<close>

declare batch_loop.simps [simp del]

lemma run_batch_upt:
  "run_batch envs analyses i =
     map (\<lambda>k. run_job envs k (analyses ! k)) [i ..< min (i + batchSize) (length analyses)]"
proof (rule nth_equalityI)
  let ?b = "take batchSize (drop i analyses)"
  have "min batchSize (length analyses - i) = min (i + batchSize) (length analyses) - i"
    by arith
  then have len: "length ?b = min (i + batchSize) (length analyses) - i" by simp
  have "length (run_batch envs analyses i) = length ?b" by (simp add: run_batch_def)
  then show "length (run_batch envs analyses i)
      = length (map (\<lambda>k. run_job envs k (analyses ! k)) [i ..< min (i + batchSize) (length analyses)])"
    using len by simp
  fix j
  assume "j < length (run_batch envs analyses i)"
  then have j: "j < length ?b" by (simp add: run_batch_def)
  then have j1: "j < batchSize" and j2: "j < length analyses - i" by simp_all
  have "i \<le> length analyses" using j2 by arith
  then have b: "?b ! j = analyses ! (i + j)" using j1 j2 by (simp add: nth_drop)
  have "i + j < min (i + batchSize) (length analyses)" using j1 j2 by arith
  then have u: "[i ..< min (i + batchSize) (length analyses)] ! j = i + j"
    by (rule nth_upt)
  have "j < min (i + batchSize) (length analyses) - i" using j1 j2 by arith
  then have jl: "j < length [i ..< min (i + batchSize) (length analyses)]"
    by (simp only: length_upt)
  have "run_batch envs analyses i ! j = run_job envs (i + j) (?b ! j)"
    using j by (simp add: run_batch_def)
  also have "\<dots> = run_job envs (i + j) (analyses ! (i + j))" by (simp only: b)
  also have "\<dots> = map (\<lambda>k. run_job envs k (analyses ! k))
      [i ..< min (i + batchSize) (length analyses)] ! j"
    by (simp only: nth_map [OF jl] u)
  finally show "run_batch envs analyses i ! j
      = map (\<lambda>k. run_job envs k (analyses ! k)) [i ..< min (i + batchSize) (length analyses)] ! j" .
qed

lemma run_job_index: "segmentIndex (fst (run_job envs k a)) = k"
  by (simp add: run_job_def split: sum.splits)

lemma run_job_no_error: "snd (snd (run_job envs k a)) = []"
proof -
  obtain r where "fst (generateLumaImage (envs k)
      \<lparr>prompt = imagePrompt a, model = Some ''ray-2'', aspect_ratio = Some ''16:9''\<rparr>) = Inr r"
    unfolding generateLumaImage_def using catch_failed_returns by blast
  then show ?thesis by (simp add: run_job_def)
qed

lemma batch_outcomes:
  "map fst (run_batch envs analyses i) =
     map (job_outcome envs analyses) [i ..< min (i + batchSize) (length analyses)]"
  by (simp add: run_batch_upt job_outcome_def)

lemma batch_events:
  "map (\<lambda>r. (segmentIndex (fst r), fst (snd r))) (run_batch envs analyses i) =
     map (job_events envs analyses) [i ..< min (i + batchSize) (length analyses)]"
  by (simp add: run_batch_upt job_events_def run_job_index)

lemma batch_errors: "concat (map (\<lambda>r. snd (snd r)) (run_batch envs analyses i)) = []"
  by (simp add: run_batch_upt run_job_no_error)

lemma batch_loop_results:
  "fst (batch_loop envs analyses onProgress i results errors trace) =
     results @ map (job_outcome envs analyses) [i ..< length analyses]"
proof (induction envs analyses onProgress i results errors trace rule: batch_loop.induct)
  case (1 envs analyses onProgress i results errors trace)
  show ?case
  proof (cases "i < length analyses")
    case False
    then show ?thesis by (subst batch_loop.simps) simp
  next
    case True
    have split: "[i ..< length analyses] =
        [i ..< min (i + batchSize) (length analyses)] @ [i + batchSize ..< length analyses]"
    proof (cases "i + batchSize \<le> length analyses")
      case True
      then obtain d where d: "length analyses = i + batchSize + d"
        by (auto simp: le_iff_add)
      have "[i ..< i + batchSize + d] = [i ..< i + batchSize] @ [i + batchSize ..< i + batchSize + d]"
        by (rule upt_add_eq_append) simp
      then show ?thesis by (simp add: d)
    next
      case False
      then show ?thesis by (simp add: min_def)
    qed
    show ?thesis
      apply (subst batch_loop.simps)
      using True "1.IH" [OF True] by (simp add: batch_outcomes split)
  qed
qed

lemma batch_loop_errors:
  "fst (snd (batch_loop envs analyses onProgress i results errors trace)) = errors"
proof (induction envs analyses onProgress i results errors trace rule: batch_loop.induct)
  case (1 envs analyses onProgress i results errors trace)
  show ?case
    apply (subst batch_loop.simps)
    using "1.IH" by (simp add: batch_errors)
qed

lemma outcomes_index:
  "map segmentIndex (map (job_outcome envs analyses) ks) = ks"
  by (induction ks) (simp_all add: job_outcome_def run_job_index)

lemma parallel_results:
  "fst (generateImagesInParallel envs analyses onProgress)
     = map (job_outcome envs analyses) [0 ..< length analyses]"
proof -
  let ?rs = "map (job_outcome envs analyses) [0 ..< length analyses]"
  have r: "fst (batch_loop envs analyses onProgress 0 [] [] []) = ?rs"
    by (simp add: batch_loop_results)
  have "sorted (map segmentIndex ?rs)" unfolding outcomes_index by simp
  then have "sort_key segmentIndex ?rs = ?rs" by (rule sort_key_id_if_sorted)
  moreover obtain rs es tr where b: "batch_loop envs analyses onProgress 0 [] [] [] = (rs, es, tr)"
    by (metis prod_cases3)
  ultimately show ?thesis using r by (simp add: generateImagesInParallel_def b)
qed

lemma parallel_trace:
  "snd (generateImagesInParallel envs analyses onProgress)
     = snd (snd (batch_loop envs analyses onProgress 0 [] [] []))"
proof -
  obtain rs es tr where b: "batch_loop envs analyses onProgress 0 [] [] [] = (rs, es, tr)"
    by (metis prod_cases3)
  then have "es = []"
    using batch_loop_errors [of envs analyses onProgress 0 "[]" "[]" "[]"] by simp
  then show ?thesis by (simp add: generateImagesInParallel_def b)
qed

lemma seven_trace:
  assumes "length analyses = 7"
  shows "snd (snd (batch_loop envs analyses onProgress 0 [] [] [])) =
     [Group (map (job_events envs analyses) [0, 1, 2])]
     @ (if onProgress then [OnProgress 3 7] else [])
     @ [Group (map (job_events envs analyses) [3, 4, 5])]
     @ (if onProgress then [OnProgress 6 7] else [])
     @ [Group (map (job_events envs analyses) [6])]
     @ (if onProgress then [OnProgress 7 7] else [])"
proof -
  have u: "[0 ..< 3] = [0, 1, 2 :: nat]" "[3 ..< 6] = [3, 4, 5 :: nat]" "[6 ..< 7] = [6 :: nat]"
    by (simp_all add: upt_rec)
  show ?thesis
    by (simp add: batch_loop.simps [of _ _ _ 0] batch_loop.simps [of _ _ _ 3]
        batch_loop.simps [of _ _ _ 6] batch_loop.simps [of _ _ _ 9]
        assms batchSize_def batch_events u)
qed

lemma job_events_call: "job_events envs analyses k = (k, snd (job_call envs analyses k))"
  by (simp add: job_events_def job_call_def image_options_def run_job_def split: sum.splits)

lemma job_outcome_call:
  "fst (job_call envs analyses k) = Inr r \<Longrightarrow> imageResponse (job_outcome envs analyses k) = r"
  by (simp add: job_outcome_def job_call_def image_options_def run_job_def)

lemma job_call_returns: "\<exists>r. fst (job_call envs analyses k) = Inr r"
  by (simp add: job_call_def generateLumaImage_def catch_failed_returns)

lemma submit_starts_with_create:
  "hd (snd (submit_and_poll env b generic with_status)) = Fetch (PostCreate (auth_headers env) b)"
  by (simp add: submit_and_poll_def split: sum.splits)

lemma job_call_submits:
  "hd (snd (job_call envs analyses k)) = submission envs analyses k
   \<and> filter is_create (snd (job_call envs analyses k)) = [submission envs analyses k]"
  by (simp add: job_call_def generateLumaImage_def catch_failed_events submit_creates_once
      submit_starts_with_create submission_def image_body_def image_options_def str_or_def)

text \<open>
  Claim C2. For every list of seven analyses, \<open>generateImagesInParallel\<close> runs the
  jobs in three groups, of the segments 0 to 2, 3 to 5 and 6, one group after the
  other, the progress callback (when given) running after each group with 3, 6 and
  7 of 7. The events of the job of segment \<open>k\<close> are those of the call of
  \<open>generateLumaImage\<close> with the prompt of analysis \<open>k\<close>, the aspect ratio
  \<open>16:9\<close> and the model \<open>ray-2\<close>; they start with the creation request for that
  prompt and hold no other creation request. The returned array has seven
  entries, in ascending order of \<open>segmentIndex\<close>, the order of the input, with the
  times of the analyses, and entry \<open>k\<close> holds the response that the call for
  segment \<open>k\<close> returned. So when the job of segment 4 ends failed, the array still
  has its seven entries in that order, with entry 4 in state \<open>failed\<close>, and when
  the others end completed, every other entry is in state \<open>completed\<close>.
\<close>

theorem seven_in_three_batches:
  assumes "length analyses = 7"
  shows "snd (generateImagesInParallel envs analyses onProgress) =
           [Group [(0, snd (job_call envs analyses 0)), (1, snd (job_call envs analyses 1)),
                   (2, snd (job_call envs analyses 2))]]
           @ (if onProgress then [OnProgress 3 7] else [])
           @ [Group [(3, snd (job_call envs analyses 3)), (4, snd (job_call envs analyses 4)),
                     (5, snd (job_call envs analyses 5))]]
           @ (if onProgress then [OnProgress 6 7] else [])
           @ [Group [(6, snd (job_call envs analyses 6))]]
           @ (if onProgress then [OnProgress 7 7] else [])
       \<and> (\<forall>k<7. hd (snd (job_call envs analyses k)) = submission envs analyses k
                 \<and> filter is_create (snd (job_call envs analyses k))
                     = [submission envs analyses k])
       \<and> length (fst (generateImagesInParallel envs analyses onProgress)) = 7
       \<and> map segmentIndex (fst (generateImagesInParallel envs analyses onProgress))
           = [0, 1, 2, 3, 4, 5, 6]
       \<and> map (\<lambda>m. (startTime m, endTime m)) (fst (generateImagesInParallel envs analyses onProgress))
           = map (\<lambda>a. (startTime a, endTime a)) analyses
       \<and> (\<forall>k<7. fst (job_call envs analyses k)
                   = Inr (imageResponse (fst (generateImagesInParallel envs analyses onProgress) ! k)))
       \<and> (fst (job_call envs analyses 4) = Inr r \<and> state r = Failed \<longrightarrow>
            length (fst (generateImagesInParallel envs analyses onProgress)) = 7
            \<and> map segmentIndex (fst (generateImagesInParallel envs analyses onProgress))
                = [0, 1, 2, 3, 4, 5, 6]
            \<and> state (imageResponse (fst (generateImagesInParallel envs analyses onProgress) ! 4))
                = Failed
            \<and> ((\<forall>k<7. k \<noteq> 4 \<longrightarrow>
                    (\<exists>r'. fst (job_call envs analyses k) = Inr r' \<and> state r' = Completed)) \<longrightarrow>
                (\<forall>k<7. k \<noteq> 4 \<longrightarrow>
                    state (imageResponse (fst (generateImagesInParallel envs analyses onProgress) ! k))
                      = Completed)))"
proof -
  have u: "[0 ..< 7] = [0, 1, 2, 3, 4, 5, 6 :: nat]" by (simp add: upt_rec)
  have rs: "fst (generateImagesInParallel envs analyses onProgress)
      = map (job_outcome envs analyses) [0 ..< 7]"
    using parallel_results [of envs analyses onProgress] assms by simp
  have tr: "snd (generateImagesInParallel envs analyses onProgress) =
      [Group [(0, snd (job_call envs analyses 0)), (1, snd (job_call envs analyses 1)),
              (2, snd (job_call envs analyses 2))]]
      @ (if onProgress then [OnProgress 3 7] else [])
      @ [Group [(3, snd (job_call envs analyses 3)), (4, snd (job_call envs analyses 4)),
                (5, snd (job_call envs analyses 5))]]
      @ (if onProgress then [OnProgress 6 7] else [])
      @ [Group [(6, snd (job_call envs analyses 6))]]
      @ (if onProgress then [OnProgress 7 7] else [])"
    unfolding parallel_trace seven_trace [OF assms] by (simp add: job_events_call)
  have sub: "\<forall>k<7. hd (snd (job_call envs analyses k)) = submission envs analyses k
      \<and> filter is_create (snd (job_call envs analyses k)) = [submission envs analyses k]"
    using job_call_submits by blast
  have len: "length (fst (generateImagesInParallel envs analyses onProgress)) = 7"
    by (simp add: rs)
  have ix: "map segmentIndex (fst (generateImagesInParallel envs analyses onProgress))
      = [0, 1, 2, 3, 4, 5, 6]"
    unfolding rs outcomes_index by (rule u)
  have nth: "\<And>k. k < 7 \<Longrightarrow>
      fst (generateImagesInParallel envs analyses onProgress) ! k = job_outcome envs analyses k"
    unfolding rs by simp
  have times: "map (\<lambda>m. (startTime m, endTime m)) (fst (generateImagesInParallel envs analyses onProgress))
      = map (\<lambda>a. (startTime a, endTime a)) analyses"
  proof (rule nth_equalityI)
    show "length (map (\<lambda>m. (startTime m, endTime m))
        (fst (generateImagesInParallel envs analyses onProgress)))
        = length (map (\<lambda>a. (startTime a, endTime a)) analyses)"
      using assms by (simp add: rs)
    fix k
    assume "k < length (map (\<lambda>m. (startTime m, endTime m))
        (fst (generateImagesInParallel envs analyses onProgress)))"
    then have k: "k < 7" by (simp add: rs)
    have "startTime (job_outcome envs analyses k) = startTime (analyses ! k)
        \<and> endTime (job_outcome envs analyses k) = endTime (analyses ! k)"
      by (simp add: job_outcome_def run_job_def split: sum.splits)
    then show "map (\<lambda>m. (startTime m, endTime m))
        (fst (generateImagesInParallel envs analyses onProgress)) ! k
        = map (\<lambda>a. (startTime a, endTime a)) analyses ! k"
      using k assms nth [OF k] by (simp add: rs)
  qed
  have resp: "\<forall>k<7. fst (job_call envs analyses k)
      = Inr (imageResponse (fst (generateImagesInParallel envs analyses onProgress) ! k))"
  proof (intro allI impI)
    fix k :: nat
    assume k: "k < 7"
    obtain r where r: "fst (job_call envs analyses k) = Inr r"
      using job_call_returns by blast
    show "fst (job_call envs analyses k)
        = Inr (imageResponse (fst (generateImagesInParallel envs analyses onProgress) ! k))"
      unfolding nth [OF k] job_outcome_call [OF r] by (rule r)
  qed
  have four: "fst (job_call envs analyses 4) = Inr r \<and> state r = Failed \<longrightarrow>
      length (fst (generateImagesInParallel envs analyses onProgress)) = 7
      \<and> map segmentIndex (fst (generateImagesInParallel envs analyses onProgress))
          = [0, 1, 2, 3, 4, 5, 6]
      \<and> state (imageResponse (fst (generateImagesInParallel envs analyses onProgress) ! 4))
          = Failed
      \<and> ((\<forall>k<7. k \<noteq> 4 \<longrightarrow>
              (\<exists>r'. fst (job_call envs analyses k) = Inr r' \<and> state r' = Completed)) \<longrightarrow>
          (\<forall>k<7. k \<noteq> 4 \<longrightarrow>
              state (imageResponse (fst (generateImagesInParallel envs analyses onProgress) ! k))
                = Completed))"
  proof (intro impI conjI allI)
    assume a: "fst (job_call envs analyses 4) = Inr r \<and> state r = Failed"
    have "fst (job_call envs analyses 4)
        = Inr (imageResponse (fst (generateImagesInParallel envs analyses onProgress) ! 4))"
      using resp by simp
    then show "state (imageResponse (fst (generateImagesInParallel envs analyses onProgress) ! 4))
        = Failed"
      using a by simp
  next
    fix k :: nat
    assume o: "\<forall>k<7. k \<noteq> 4 \<longrightarrow>
        (\<exists>r'. fst (job_call envs analyses k) = Inr r' \<and> state r' = Completed)"
      and k: "k < 7" "k \<noteq> 4"
    obtain r' where r': "fst (job_call envs analyses k) = Inr r'" "state r' = Completed"
      using o k by blast
    have "fst (job_call envs analyses k)
        = Inr (imageResponse (fst (generateImagesInParallel envs analyses onProgress) ! k))"
      using resp k by simp
    then show "state (imageResponse (fst (generateImagesInParallel envs analyses onProgress) ! k))
        = Completed"
      using r' by simp
  qed (rule len, rule ix)
  show ?thesis using tr sub len ix times resp four by (intro conjI)
qed

lemma image_completes:
  "fst (generateLumaImage net_completes options) =
     Inr \<lparr>id' = Some (JStr (Raw ''job-1'')), state = Completed,
          imageUrl = Some (JStr (Raw ''https://cdn/1.png'')), videoUrl = None,
          failure_reason = None\<rparr>"
proof -
  have c: "(2::nat) < 30" "\<forall>j<2. in_progress net_completes demo_id j"
    "reports net_completes demo_id 2 ''completed'' completed_status"
    by (simp_all add: in_progress_def reports_def net_completes_def http_ok_def completed_status_def)
  have "fst (pollGenerationStatus net_completes demo_id) =
     Inr \<lparr>id' = Some (JStr (Raw ''job-1'')), state = Completed,
          imageUrl = Some (JStr (Raw ''https://cdn/1.png'')), videoUrl = None,
          failure_reason = None\<rparr>"
    unfolding poll_returns_completed [OF c]
    by (simp add: completed_status_def js_or_def truthy_def)
  moreover have "createResponse net_completes (image_body options)
      = http_ok (JObj [(''id'', JStr (Raw ''job-1''))])"
    by (simp add: net_completes_def)
  ultimately show ?thesis
    by (simp add: generateLumaImage_def submit_and_poll_def catch_failed_def http_ok_def
        demo_id_def)
qed

lemma image_rejected:
  "fst (generateLumaImage net_rejects options) =
     Inr \<lparr>id' = Some (JStr (Raw ''error'')), state = Failed, imageUrl = None, videoUrl = None,
          failure_reason = Some (JStr (Lit ImageRequestFailed))\<rparr>"
  by (simp add: generateLumaImage_def submit_and_poll_def catch_failed_def net_rejects_def
      error_message_def js_or_def truthy_def)

theorem seven_in_three_batches_witness:
  "length (fst (generateImagesInParallel fourth_fails seven_analyses True)) = 7
   \<and> map segmentIndex (fst (generateImagesInParallel fourth_fails seven_analyses True))
       = [0, 1, 2, 3, 4, 5, 6]
   \<and> state (imageResponse (fst (generateImagesInParallel fourth_fails seven_analyses True) ! 4))
       = Failed
   \<and> state (imageResponse (fst (generateImagesInParallel fourth_fails seven_analyses True) ! 5))
       = Completed
   \<and> hd (snd (job_call fourth_fails seven_analyses 4))
       = Fetch (PostCreate [(Authorization, ''Bearer luma-key-1''),
                            (Content_Type, ''application/json'')]
                  (ImageBody (JStr (Raw ''a calm sea at dusk'')) ''16:9'' ''ray-2''))"
proof -
  let ?failed = "\<lparr>id' = Some (JStr (Raw ''error'')), state = Failed, imageUrl = None,
                   videoUrl = None, failure_reason = Some (JStr (Lit ImageRequestFailed))\<rparr>"
  have l: "length seven_analyses = 7" by (simp add: seven_analyses_def)
  have f: "fst (job_call fourth_fails seven_analyses 4) = Inr ?failed \<and> state ?failed = Failed"
    by (simp add: job_call_def fourth_fails_def image_rejected)
  have c: "\<forall>k<7. k \<noteq> 4 \<longrightarrow>
      (\<exists>r'. fst (job_call fourth_fails seven_analyses k) = Inr r' \<and> state r' = Completed)"
    by (simp add: job_call_def fourth_fails_def image_completes)
  note t = seven_in_three_batches [OF l, of fourth_fails True ?failed]
  note s = t [THEN conjunct2, THEN conjunct1]
  note g = t [THEN conjunct2, THEN conjunct2, THEN conjunct2, THEN conjunct2, THEN conjunct2,
      THEN conjunct2, THEN mp, OF f]
  note a = g [THEN conjunct1]
  note b = g [THEN conjunct2, THEN conjunct1]
  note d = g [THEN conjunct2, THEN conjunct2, THEN conjunct1]
  note e = g [THEN conjunct2, THEN conjunct2, THEN conjunct2, THEN mp, OF c]
  have five: "state (imageResponse (fst (generateImagesInParallel fourth_fails seven_analyses True) ! 5))
       = Completed"
    using e [rule_format, of 5] by simp
  have "hd (snd (job_call fourth_fails seven_analyses 4)) = submission fourth_fails seven_analyses 4"
    using s [rule_format, of 4] by simp
  then have sub: "hd (snd (job_call fourth_fails seven_analyses 4))
       = Fetch (PostCreate [(Authorization, ''Bearer luma-key-1''),
                            (Content_Type, ''application/json'')]
                  (ImageBody (JStr (Raw ''a calm sea at dusk'')) ''16:9'' ''ray-2''))"
    by (simp add: submission_def fourth_fails_def net_rejects_def auth_headers_def
        seven_analyses_def demo_analysis_def)
  show ?thesis using a b d five sub by (intro conjI)
qed

section \<open>Properties of the credential\<close>

lemma submit_headers:
  "\<forall>ev \<in> set (snd (submit_and_poll env b generic with_status)).
     \<forall>req. ev = Fetch req \<longrightarrow> request_headers req = auth_headers env"
proof -
  have "\<forall>ev \<in> set (snd (poll_loop env jobId 0)).
      \<forall>req. ev = Fetch req \<longrightarrow> request_headers req = auth_headers env" for jobId
    using poll_events_subset [of env jobId 0] by (auto simp: status_query_def)
  then show ?thesis
    by (auto simp: submit_and_poll_def pollGenerationStatus_def split: sum.splits if_splits)
qed

lemma auth_header_value:
  "map_of (auth_headers env) Authorization
     = Some (''Bearer '' @ (case viteKey env of None \<Rightarrow> ''undefined'' | Some k \<Rightarrow> k))"
  by (simp add: auth_headers_def)

lemma setHeader_same: "map_of (setHeader name v hs) name = Some v"
  by (simp add: setHeader_def)

lemma map_of_filter_other:
  "name' \<noteq> name \<Longrightarrow> map_of (filter (\<lambda>h. fst h \<noteq> name) hs) name' = map_of hs name'"
  by (induction hs) auto

lemma setHeader_other:
  "name' \<noteq> name \<Longrightarrow> map_of (setHeader name v hs) name' = map_of hs name'"
  by (simp add: setHeader_def map_of_filter_other)

text \<open>
  Claim C9 as stated fails. The creation request that the browser-side code builds
  carries the key of its own build environment as bearer credential, and a relay
  whose \<open>LUMA_API_KEY\<close> is not set passes that credential on unchanged.
\<close>

theorem credential_counterexample:
  "viteKey net_rejects = Some ''luma-key-1''
   \<and> snd (generateLumaImage net_rejects demo_options)
       = [Fetch (PostCreate
            [(Authorization, ''Bearer luma-key-1''), (Content_Type, ''application/json'')]
            (ImageBody (JStr (Raw ''a calm sea at dusk'')) ''16:9'' ''ray-2''))]
   \<and> map_of (onProxyReq relay_without_key
         [(Authorization, ''Bearer luma-key-1''), (Content_Type, ''application/json'')])
         Authorization
       = Some ''Bearer luma-key-1''"
  by (simp add: generateLumaImage_def submit_and_poll_def catch_failed_def net_rejects_def
      auth_headers_def image_body_def demo_options_def str_or_def onProxyReq_def
      relay_without_key_def setHeader_def)

text \<open>
  Claim C9, amended. Every request that \<open>generateLumaImage\<close> and
  \<open>generateLumaVideo\<close> make carries the header \<open>Authorization\<close> with the bearer
  credential taken from \<open>VITE_LUMA_API_KEY\<close> of the client build. The relay
  replaces that header by the credential of its own \<open>LUMA_API_KEY\<close> whenever
  that variable is set and not empty, whatever the browser sent; when it is not
  set, the relay leaves the header of the browser as it is. The development proxy
  always sets the header, from \<open>VITE_LUMA_API_KEY\<close> of its own process.
\<close>

theorem credential_headers:
  "(\<forall>ev \<in> set (snd (generateLumaImage env options)).
      \<forall>req. ev = Fetch req \<longrightarrow>
        map_of (request_headers req) Authorization
          = Some (''Bearer '' @ (case viteKey env of None \<Rightarrow> ''undefined'' | Some k \<Rightarrow> k)))
   \<and> (\<forall>ev \<in> set (snd (generateLumaVideo env voptions)).
      \<forall>req. ev = Fetch req \<longrightarrow>
        map_of (request_headers req) Authorization
          = Some (''Bearer '' @ (case viteKey env of None \<Rightarrow> ''undefined'' | Some k \<Rightarrow> k)))
   \<and> (LUMA_API_KEY penv = Some k \<and> k \<noteq> [] \<longrightarrow>
        map_of (onProxyReq penv incoming) Authorization = Some (''Bearer '' @ k))
   \<and> (LUMA_API_KEY penv = None \<or> LUMA_API_KEY penv = Some [] \<longrightarrow>
        map_of (onProxyReq penv incoming) Authorization = map_of incoming Authorization)
   \<and> map_of (dev_proxy_headers penv incoming) Authorization
        = Some (''Bearer '' @ str_or (VITE_LUMA_API_KEY penv) [])"
proof (intro conjI)
  show "\<forall>ev \<in> set (snd (generateLumaImage env options)).
      \<forall>req. ev = Fetch req \<longrightarrow>
        map_of (request_headers req) Authorization
          = Some (''Bearer '' @ (case viteKey env of None \<Rightarrow> ''undefined'' | Some k \<Rightarrow> k))"
    using submit_headers [of env "image_body options" ImageRequestFailed ImageRequestFailedWith]
    by (simp add: generateLumaImage_def catch_failed_events auth_header_value)
  show "\<forall>ev \<in> set (snd (generateLumaVideo env voptions)).
      \<forall>req. ev = Fetch req \<longrightarrow>
        map_of (request_headers req) Authorization
          = Some (''Bearer '' @ (case viteKey env of None \<Rightarrow> ''undefined'' | Some k \<Rightarrow> k))"
    using submit_headers [of env "video_body voptions" VideoRequestFailed VideoRequestFailedWith]
    by (simp add: generateLumaVideo_def catch_failed_events auth_header_value)
  show "LUMA_API_KEY penv = Some k \<and> k \<noteq> [] \<longrightarrow>
      map_of (onProxyReq penv incoming) Authorization = Some (''Bearer '' @ k)"
    by (simp add: onProxyReq_def setHeader_other setHeader_same)
  show "LUMA_API_KEY penv = None \<or> LUMA_API_KEY penv = Some [] \<longrightarrow>
      map_of (onProxyReq penv incoming) Authorization = map_of incoming Authorization"
    by (auto simp: onProxyReq_def setHeader_other)
  show "map_of (dev_proxy_headers penv incoming) Authorization
      = Some (''Bearer '' @ str_or (VITE_LUMA_API_KEY penv) [])"
    by (simp add: dev_proxy_headers_def setHeader_same)
qed

theorem credential_headers_witness:
  "map_of (request_headers (PostCreate (auth_headers net_rejects) (image_body demo_options)))
      Authorization = Some ''Bearer luma-key-1''
   \<and> map_of (onProxyReq relay_with_key (auth_headers net_rejects)) Authorization
      = Some ''Bearer luma-server-key''
   \<and> map_of (onProxyReq relay_without_key (auth_headers net_rejects)) Authorization
      = Some ''Bearer luma-key-1''"
proof -
  note t = credential_headers [of net_rejects demo_options _ _ "''luma-server-key''"
      "auth_headers net_rejects"]
  have ev: "Fetch (PostCreate (auth_headers net_rejects) (image_body demo_options))
      \<in> set (snd (generateLumaImage net_rejects demo_options))"
    by (simp add: generateLumaImage_def submit_and_poll_def catch_failed_def net_rejects_def)
  have k: "viteKey net_rejects = Some ''luma-key-1''" by (simp add: net_rejects_def)
  have 1: "map_of (request_headers (PostCreate (auth_headers net_rejects) (image_body demo_options)))
      Authorization = Some ''Bearer luma-key-1''"
    using t [of _ relay_with_key, THEN conjunct1, rule_format, OF ev refl] by (simp add: k)
  have 2: "map_of (onProxyReq relay_with_key (auth_headers net_rejects)) Authorization
      = Some ''Bearer luma-server-key''"
    using t [of _ relay_with_key, THEN conjunct2, THEN conjunct2, THEN conjunct1]
    by (simp add: relay_with_key_def)
  have 3: "map_of (onProxyReq relay_without_key (auth_headers net_rejects)) Authorization
      = map_of (auth_headers net_rejects) Authorization"
    using t [of _ relay_without_key, THEN conjunct2, THEN conjunct2, THEN conjunct2, THEN conjunct1]
    by (simp add: relay_without_key_def)
  show ?thesis using 1 2 3 by (simp add: auth_header_value k)
qed

end
